theory Spec2Isabelle
  imports Complex_Main
begin

section \<open>Earth Engine values at one pixel\<close>

text \<open>
  Both algorithms of the repository (\<open>phenology_extraction.py\<close> and
  \<open>cloud_temporal_filter.py\<close>) are written as Earth Engine image expressions that are
  evaluated independently at every pixel.  The embedding follows one pixel.  A band of an
  image at that pixel is a value together with its mask bit; arithmetic is over the real
  numbers, except in the second model of the rejection stage, which rounds as floating point
  does.

  The image operators below follow the Earth Engine operators of the same name, which the
  source calls: a binary operator yields a masked pixel where either operand is masked,
  comparisons yield 1 or 0, \<open>unmask()\<close> replaces a masked pixel by a valid 0,
  \<open>mask()\<close> reads the mask as a valid 1 or 0, \<open>mask(m)\<close> sets it and
  \<open>updateMask(m)\<close> clears it where \<open>m\<close> is zero or masked.  \<open>divide\<close> is
  documented to return 0 for a division by 0, which is also what \<open>/\<close> does in HOL.
\<close>

record pixel =
  val :: real
  valid :: bool

definition px_const :: "real \<Rightarrow> pixel" where
  "px_const c = \<lparr>val = c, valid = True\<rparr>"

definition px_add :: "pixel \<Rightarrow> pixel \<Rightarrow> pixel" where
  "px_add a b = \<lparr>val = val a + val b, valid = (valid a \<and> valid b)\<rparr>"

definition px_subtract :: "pixel \<Rightarrow> pixel \<Rightarrow> pixel" where
  "px_subtract a b = \<lparr>val = val a - val b, valid = (valid a \<and> valid b)\<rparr>"

definition px_multiply :: "pixel \<Rightarrow> pixel \<Rightarrow> pixel" where
  "px_multiply a b = \<lparr>val = val a * val b, valid = (valid a \<and> valid b)\<rparr>"

definition px_divide :: "pixel \<Rightarrow> pixel \<Rightarrow> pixel" where
  "px_divide a b = \<lparr>val = val a / val b, valid = (valid a \<and> valid b)\<rparr>"

definition px_gt :: "pixel \<Rightarrow> pixel \<Rightarrow> pixel" where
  "px_gt a b = \<lparr>val = (if val a > val b then 1 else 0), valid = (valid a \<and> valid b)\<rparr>"

definition px_lt :: "pixel \<Rightarrow> pixel \<Rightarrow> pixel" where
  "px_lt a b = \<lparr>val = (if val a < val b then 1 else 0), valid = (valid a \<and> valid b)\<rparr>"

definition px_eq :: "pixel \<Rightarrow> pixel \<Rightarrow> pixel" where
  "px_eq a b = \<lparr>val = (if val a = val b then 1 else 0), valid = (valid a \<and> valid b)\<rparr>"

definition px_not :: "pixel \<Rightarrow> pixel" where
  "px_not a = \<lparr>val = (if val a = 0 then 1 else 0), valid = valid a\<rparr>"

definition px_unmask :: "pixel \<Rightarrow> pixel" where
  "px_unmask a = \<lparr>val = (if valid a then val a else 0), valid = True\<rparr>"

definition px_mask :: "pixel \<Rightarrow> pixel" where
  "px_mask a = \<lparr>val = (if valid a then 1 else 0), valid = True\<rparr>"

definition px_set_mask :: "pixel \<Rightarrow> pixel \<Rightarrow> pixel" where
  "px_set_mask a m = \<lparr>val = val a, valid = (valid m \<and> val m \<noteq> 0)\<rparr>"

definition px_updateMask :: "pixel \<Rightarrow> pixel \<Rightarrow> pixel" where
  "px_updateMask a m = \<lparr>val = val a, valid = (valid a \<and> valid m \<and> val m \<noteq> 0)\<rparr>"

section \<open>Phenology extraction (\<open>phenology_extraction.py\<close>)\<close>

subsection \<open>Images, dates and the operators taken from Earth Engine\<close>

text \<open>
  An image of the input collection carries the property \<open>system:time_start\<close> (a date, in
  milliseconds since 1970-01-01; the image built by \<open>get_window_fit\<close> itself has none)
  and the two bands selected by \<open>fit_phenology\<close>: \<open>time\<close> (in years) and the target
  band \<open>band_name\<close>.  Window widths are whole days.
\<close>

record image =
  time_start :: "int option"
  time :: pixel
  band :: pixel

record image_sq = image +
  time_sq :: pixel

record regression_image = image_sq +
  constant_band :: pixel

text \<open>
  The reducers and the calendar of Earth Engine are not part of the repository.  They are
  parameters of the model: the reducers of an image collection over one band
  (\<open>median\<close>, \<open>min\<close>, \<open>max\<close>, \<open>stdDev\<close>, \<open>count\<close>), the two robust regressions (from
  the rows \<open>constant, time, time_sq, band\<close>, respectively \<open>constant, time, band\<close>, to
  the coefficients in the order of the predictors), and on dates
  \<open>fromYMD(d.get('year'), 1, 1)\<close>, \<open>fromYMD(d.get('year'), 12, 31)\<close> and
  \<open>d.advance(n, 'year')\<close>.
\<close>

record earth_engine =
  ee_median :: "pixel list \<Rightarrow> pixel"
  ee_min :: "pixel list \<Rightarrow> pixel"
  ee_max :: "pixel list \<Rightarrow> pixel"
  ee_stdDev :: "pixel list \<Rightarrow> pixel"
  ee_count :: "pixel list \<Rightarrow> pixel"
  ee_robust_quadratic :: "(pixel \<times> pixel \<times> pixel \<times> pixel) list \<Rightarrow> pixel \<times> pixel \<times> pixel"
  ee_robust_linear :: "(pixel \<times> pixel \<times> pixel) list \<Rightarrow> pixel \<times> pixel"
  ee_year_start :: "int \<Rightarrow> int"
  ee_year_end :: "int \<Rightarrow> int"
  ee_advance_year :: "int \<Rightarrow> int \<Rightarrow> int"

definition ms_per_day :: int where
  "ms_per_day = 86400000"

definition advance_day :: "int \<Rightarrow> int \<Rightarrow> int" where
  "advance_day n d = d + n * ms_per_day"

text \<open>\<open>filterDate(start, end)\<close> keeps the images with \<open>start \<le> system:time_start < end\<close>.\<close>

definition in_date_range :: "int \<Rightarrow> int \<Rightarrow> image \<Rightarrow> bool" where
  "in_date_range start end_date img =
     (case time_start img of None \<Rightarrow> False | Some t \<Rightarrow> start \<le> t \<and> t < end_date)"

definition filterDate :: "int \<Rightarrow> int \<Rightarrow> image list \<Rightarrow> image list" where
  "filterDate start end_date xs = filter (in_date_range start end_date) xs"

definition collection_median_of :: "earth_engine \<Rightarrow> image list \<Rightarrow> pixel \<times> pixel" where
  "collection_median_of ee input_collection =
     (ee_median ee (map time input_collection), ee_median ee (map band input_collection))"

text \<open>The default of the parameter \<open>collection_median\<close> of \<open>get_window_fit\<close>.\<close>

definition default_collection_median ::
  "earth_engine \<Rightarrow> image list \<Rightarrow> (pixel \<times> pixel) option \<Rightarrow> pixel \<times> pixel" where
  "default_collection_median ee input_collection collection_median =
     (case collection_median of
        None \<Rightarrow> collection_median_of ee input_collection
      | Some m \<Rightarrow> m)"

subsection \<open>\<open>get_window_fit\<close>: the temporal window\<close>

definition addYear :: "image \<Rightarrow> image" where
  "addYear img = img\<lparr>time := px_add (time img) (px_const 1)\<rparr>"

definition subtractYear :: "image \<Rightarrow> image" where
  "subtractYear img = img\<lparr>time := px_subtract (time img) (px_const 1)\<rparr>"

text \<open>The image that is 0 and masked everywhere, built from the collection median.\<close>

definition masked_zero_image :: "pixel \<times> pixel \<Rightarrow> image" where
  "masked_zero_image collection_median =
     \<lparr>time_start = None,
      time = px_set_mask (px_multiply (fst collection_median) (px_const 0)) (px_const 0),
      band = px_set_mask (px_multiply (snd collection_median) (px_const 0)) (px_const 0)\<rparr>"

definition window_of ::
  "earth_engine \<Rightarrow> image list \<Rightarrow> int \<Rightarrow> int \<Rightarrow> int \<Rightarrow> pixel \<times> pixel \<Rightarrow> bool \<Rightarrow> image list" where
  "window_of ee input_collection advance_window_width following_window_width target_date
       collection_median wrap_data =
     (let window_start_date = advance_day (- advance_window_width) target_date;
          window_end_date = advance_day following_window_width target_date;
          advance_window = filterDate window_start_date target_date input_collection;
          following_window = filterDate target_date window_end_date input_collection;
          target_year_start = ee_year_start ee target_date;
          target_year_end = ee_year_end ee target_date;
          following_window_wrapped =
            map addYear
              (filterDate target_year_start
                 (advance_day following_window_width (ee_advance_year ee (- 1) target_date))
                 input_collection);
          advance_window_wrapped =
            map subtractYear
              (filterDate
                 (advance_day (- advance_window_width) (ee_advance_year ee 1 target_date))
                 target_year_end input_collection);
          window =
            (if wrap_data
             then ((advance_window @ following_window) @ advance_window_wrapped)
                    @ following_window_wrapped
             else advance_window @ following_window)
      in window @ [masked_zero_image collection_median])"

subsection \<open>\<open>get_window_fit\<close>: regression, choice of the fit, rejection\<close>

definition addTimeSquared :: "image \<Rightarrow> image_sq" where
  "addTimeSquared img =
     \<lparr>time_start = time_start img, time = time img, band = band img,
      time_sq = px_multiply (time img) (time img)\<rparr>"

definition addConstant :: "image_sq \<Rightarrow> regression_image" where
  "addConstant img =
     \<lparr>time_start = time_start img, time = time img, band = band img,
      time_sq = time_sq img, constant_band = px_const 1\<rparr>"

text \<open>Lines 126 to 135: the choice of the fit by the number of scenes.\<close>

definition choose_fit :: "pixel \<Rightarrow> pixel \<Rightarrow> pixel \<Rightarrow> pixel \<Rightarrow> pixel" where
  "choose_fit scene_count quadratic_prediction linear_prediction window_median =
     (let too_little_data_for_linear_mask = px_unmask (px_lt scene_count (px_const 3));
          too_little_data_for_quadratic_mask = px_unmask (px_lt scene_count (px_const 6));
          model_prediction_filtered =
            px_add
              (px_unmask (px_multiply quadratic_prediction
                            (px_eq too_little_data_for_quadratic_mask (px_const 0))))
              (px_multiply too_little_data_for_quadratic_mask linear_prediction)
      in px_add
           (px_unmask (px_multiply model_prediction_filtered
                         (px_eq too_little_data_for_linear_mask (px_const 0))))
           (px_multiply too_little_data_for_linear_mask window_median))"

text \<open>Lines 142 to 162: the masks of implausible and of statistically unlikely values.\<close>

definition bad_data_high :: "real \<Rightarrow> pixel \<Rightarrow> pixel \<Rightarrow> pixel \<Rightarrow> pixel" where
  "bad_data_high max_value model_prediction_filtered neighborhood_median neighborhood_stdev =
     (let too_high_mask = px_unmask (px_gt model_prediction_filtered (px_const max_value));
          statistical_outlier_high =
            px_unmask (px_gt model_prediction_filtered
                         (px_add neighborhood_median
                            (px_multiply neighborhood_stdev (px_const 1.5))))
      in px_gt (px_add too_high_mask statistical_outlier_high) (px_const 0))"

definition bad_data_low :: "real \<Rightarrow> pixel \<Rightarrow> pixel \<Rightarrow> pixel \<Rightarrow> pixel" where
  "bad_data_low min_value model_prediction_filtered neighborhood_median neighborhood_stdev =
     (let too_low_mask = px_unmask (px_lt model_prediction_filtered (px_const min_value));
          statistical_outlier_low =
            px_unmask (px_lt model_prediction_filtered
                         (px_subtract neighborhood_median
                            (px_multiply neighborhood_stdev (px_const 1.5))))
      in px_gt (px_add too_low_mask statistical_outlier_low) (px_const 0))"

text \<open>Lines 161 and 162: the replacement of the flagged values.\<close>

definition reject_values :: "real \<Rightarrow> real \<Rightarrow> pixel \<Rightarrow> pixel \<Rightarrow> pixel \<Rightarrow> pixel" where
  "reject_values min_value max_value prediction neighborhood_median neighborhood_stdev =
     (let high = bad_data_high max_value prediction neighborhood_median neighborhood_stdev;
          low = bad_data_low min_value prediction neighborhood_median neighborhood_stdev;
          model_prediction_filtered =
            px_add
              (px_unmask (px_multiply prediction (px_eq high (px_const 0))))
              (px_add (px_multiply high neighborhood_median) neighborhood_stdev)
      in px_add
           (px_unmask (px_multiply model_prediction_filtered (px_eq low (px_const 0))))
           (px_subtract (px_multiply low neighborhood_median) neighborhood_stdev))"

subsection \<open>The rejection stage in floating point\<close>

text \<open>
  The sums, differences and products of lines 142 to 162 are computed in floating point.
  The stage is modelled a second time with every such result rounded by a function
  \<open>rnd\<close>; comparisons, masks and their integer sums are exact.  With the identity for
  \<open>rnd\<close> this is \<open>reject_values\<close>.  \<open>binary64\<close> is the rounding of IEEE 754 double
  precision in its normal range: to the nearest number with 53 significant bits, a tie to
  the one with an even last bit.
\<close>

definition px_add_fl :: "(real \<Rightarrow> real) \<Rightarrow> pixel \<Rightarrow> pixel \<Rightarrow> pixel" where
  "px_add_fl rnd a b = \<lparr>val = rnd (val a + val b), valid = (valid a \<and> valid b)\<rparr>"

definition px_subtract_fl :: "(real \<Rightarrow> real) \<Rightarrow> pixel \<Rightarrow> pixel \<Rightarrow> pixel" where
  "px_subtract_fl rnd a b = \<lparr>val = rnd (val a - val b), valid = (valid a \<and> valid b)\<rparr>"

definition px_multiply_fl :: "(real \<Rightarrow> real) \<Rightarrow> pixel \<Rightarrow> pixel \<Rightarrow> pixel" where
  "px_multiply_fl rnd a b = \<lparr>val = rnd (val a * val b), valid = (valid a \<and> valid b)\<rparr>"

definition reject_values_fl ::
  "(real \<Rightarrow> real) \<Rightarrow> real \<Rightarrow> real \<Rightarrow> pixel \<Rightarrow> pixel \<Rightarrow> pixel \<Rightarrow> pixel" where
  "reject_values_fl rnd min_value max_value prediction neighborhood_median neighborhood_stdev =
     (let too_high_mask = px_unmask (px_gt prediction (px_const max_value));
          too_low_mask = px_unmask (px_lt prediction (px_const min_value));
          statistical_outlier_high =
            px_unmask (px_gt prediction
                         (px_add_fl rnd neighborhood_median
                            (px_multiply_fl rnd neighborhood_stdev (px_const 1.5))));
          statistical_outlier_low =
            px_unmask (px_lt prediction
                         (px_subtract_fl rnd neighborhood_median
                            (px_multiply_fl rnd neighborhood_stdev (px_const 1.5))));
          high = px_gt (px_add too_high_mask statistical_outlier_high) (px_const 0);
          low = px_gt (px_add too_low_mask statistical_outlier_low) (px_const 0);
          model_prediction_filtered =
            px_add_fl rnd
              (px_unmask (px_multiply_fl rnd prediction (px_eq high (px_const 0))))
              (px_add_fl rnd (px_multiply_fl rnd high neighborhood_median) neighborhood_stdev)
      in px_add_fl rnd
           (px_unmask (px_multiply_fl rnd model_prediction_filtered (px_eq low (px_const 0))))
           (px_subtract_fl rnd (px_multiply_fl rnd low neighborhood_median)
              neighborhood_stdev))"

definition rne :: "real \<Rightarrow> int" where
  "rne y =
     (if y - of_int \<lfloor>y\<rfloor> < 1 / 2 then \<lfloor>y\<rfloor>
      else if 1 / 2 < y - of_int \<lfloor>y\<rfloor> then \<lfloor>y\<rfloor> + 1
      else if even \<lfloor>y\<rfloor> then \<lfloor>y\<rfloor> else \<lfloor>y\<rfloor> + 1)"

definition binary64 :: "real \<Rightarrow> real" where
  "binary64 x =
     (if x = 0 then 0
      else of_int (rne (x / 2 powi (\<lfloor>log 2 \<bar>x\<bar>\<rfloor> - 52))) * 2 powi (\<lfloor>log 2 \<bar>x\<bar>\<rfloor> - 52))"

record prediction_record =
  median_out :: pixel
  time_out :: pixel
  prediction_filtered :: pixel
  clear_images :: pixel
  window_size :: pixel
  min_out :: pixel
  max_out :: pixel
  stdev_out :: pixel
  linear_coef :: pixel
  quadratic_coef :: pixel

definition target_time_of :: "int \<Rightarrow> real" where
  "target_time_of target_date =
     (real_of_int target_date / 1000) / (365.25 * 24 * 3600) + 1970"

definition quadratic_prediction_of :: "pixel \<times> pixel \<times> pixel \<Rightarrow> real \<Rightarrow> pixel" where
  "quadratic_prediction_of quadratic_coeffs target_time =
     (case quadratic_coeffs of (c_constant, c_time, c_time_sq) \<Rightarrow>
        px_add
          (px_add c_constant (px_multiply c_time (px_const target_time)))
          (px_multiply (px_multiply c_time_sq (px_const target_time)) (px_const target_time)))"

definition linear_prediction_of :: "pixel \<times> pixel \<Rightarrow> real \<Rightarrow> pixel" where
  "linear_prediction_of linear_coeffs target_time =
     (case linear_coeffs of (c_constant, c_time) \<Rightarrow>
        px_add c_constant (px_multiply c_time (px_const target_time)))"

definition regression_data_of :: "image list \<Rightarrow> regression_image list" where
  "regression_data_of window = map addConstant (map addTimeSquared window)"

definition quadratic_coeffs_of :: "earth_engine \<Rightarrow> image list \<Rightarrow> pixel \<times> pixel \<times> pixel" where
  "quadratic_coeffs_of ee window =
     ee_robust_quadratic ee
       (map (\<lambda>img. (constant_band img, time img, time_sq img, band img)) (regression_data_of window))"

definition linear_coeffs_of :: "earth_engine \<Rightarrow> image list \<Rightarrow> pixel \<times> pixel" where
  "linear_coeffs_of ee window =
     ee_robust_linear ee
       (map (\<lambda>img. (constant_band img, time img, band img)) (regression_data_of window))"

text \<open>The prediction that enters the rejection stage (the value of line 134).\<close>

definition model_prediction_of :: "earth_engine \<Rightarrow> image list \<Rightarrow> real \<Rightarrow> pixel" where
  "model_prediction_of ee window target_time =
     choose_fit (ee_count ee (map band (regression_data_of window)))
       (quadratic_prediction_of (quadratic_coeffs_of ee window) target_time)
       (linear_prediction_of (linear_coeffs_of ee window) target_time)
       (ee_median ee (map band window))"

definition get_window_fit ::
  "earth_engine \<Rightarrow> image list \<Rightarrow> int \<Rightarrow> int \<Rightarrow> int \<Rightarrow> real \<Rightarrow> real \<Rightarrow> (pixel \<times> pixel) option
     \<Rightarrow> bool \<Rightarrow> prediction_record" where
  "get_window_fit ee input_collection advance_window_width following_window_width target_date
       min_value max_value collection_median wrap_data =
     (let collection_median =
            default_collection_median ee input_collection collection_median;
          target_time = target_time_of target_date;
          window = window_of ee input_collection advance_window_width following_window_width
                     target_date collection_median wrap_data;
          model_prediction_filtered = model_prediction_of ee window target_time;
          neighborhood_median = ee_median ee (map band window);
          neighborhood_min = ee_min ee (map band window);
          neighborhood_max = ee_max ee (map band window);
          neighborhood_stdev = ee_stdDev ee (map band window)
      in \<lparr>median_out = neighborhood_median,
          time_out = px_const target_time,
          prediction_filtered =
            reject_values min_value max_value model_prediction_filtered
              neighborhood_median neighborhood_stdev,
          clear_images = ee_count ee (map band window),
          window_size = ee_count ee (map (\<lambda>img. px_unmask (band img)) window),
          min_out = neighborhood_min,
          max_out = neighborhood_max,
          stdev_out = neighborhood_stdev,
          linear_coef = fst (linear_coeffs_of ee window),
          quadratic_coef = fst (quadratic_coeffs_of ee window)\<rparr>)"

subsection \<open>\<open>fit_phenology\<close>\<close>

text \<open>
  The source has no statement that raises; the result type has an error alternative so
  that the absence of a reported error can be stated.  \<open>ee.List.sequence(0, n)\<close> counts
  from 0 to \<open>n\<close>, both included.
\<close>

datatype error = Configuration_error | Index_out_of_range | Empty_collection

definition timing_interval_of :: "int \<Rightarrow> int \<Rightarrow> nat \<Rightarrow> int" where
  "timing_interval_of min_date max_date num_time_steps =
     \<lfloor>(real_of_int (max_date - min_date) / real_of_int ms_per_day) / real num_time_steps\<rfloor>"

definition sampleDate :: "int \<Rightarrow> int \<Rightarrow> int \<Rightarrow> int" where
  "sampleDate min_date timing_interval index = advance_day (index * timing_interval) min_date"

definition target_dates_of :: "int \<Rightarrow> int \<Rightarrow> nat \<Rightarrow> int list" where
  "target_dates_of min_date max_date num_time_steps =
     map (sampleDate min_date (timing_interval_of min_date max_date num_time_steps))
       [0 .. int num_time_steps]"

definition fit_phenology ::
  "earth_engine \<Rightarrow> image list \<Rightarrow> int \<Rightarrow> int \<Rightarrow> nat \<Rightarrow> int \<Rightarrow> int \<Rightarrow> real \<Rightarrow> real \<Rightarrow> bool
     \<Rightarrow> error + prediction_record list" where
  "fit_phenology ee input_collection advance_window_width following_window_width num_time_steps
       min_date max_date min_value max_value wrap_data =
     (let collection_median = collection_median_of ee input_collection;
          target_dates = target_dates_of min_date max_date num_time_steps;
          fitAllDays = (\<lambda>target_date.
            get_window_fit ee input_collection advance_window_width following_window_width
              target_date min_value max_value (Some collection_median) wrap_data)
      in Inr (map fitAllDays target_dates))"

section \<open>Cloud filter (\<open>cloud_temporal_filter.py\<close>)\<close>

text \<open>
  A scene of \<open>pheno_in\<close> at the pixel: the band \<open>band_name\<close>, the band \<open>DOY\<close> and
  the property \<open>system:time_start\<close>.  The images kept in the running lists of the two
  scans have the two bands only.
\<close>

record two_band =
  band_value :: pixel
  DOY :: pixel

record scene = two_band +
  system_time_start :: int

record filtered_scene = scene +
  reg_diff :: pixel
  reg_expected :: pixel
  previous_value :: pixel
  previous_DOY :: pixel
  next_value :: pixel
  next_DOY :: pixel

subsection \<open>Lists of Earth Engine\<close>

text \<open>
  \<open>ee.List.get\<close> counts a negative index from the end and fails out of range;
  \<open>iterate\<close> folds a function over a collection from a first state; \<open>map\<close> applies
  an algorithm that may fail to every element.  \<open>ee.List.sequence(a, b)\<close> is \<open>[a..b]\<close>.
  \<open>sort('system:time_start', ascending)\<close> sorts by the property, upwards or downwards,
  and \<open>limit(n, 'system:time_start', ascending)\<close> keeps at most \<open>n\<close> scenes of the
  sorted collection.  The model keeps scenes of equal time in their order; the theorems
  below are about series of distinct times.
\<close>

definition ee_get :: "'a list \<Rightarrow> int \<Rightarrow> error + 'a" where
  "ee_get xs i =
     (if 0 \<le> i \<and> i < int (length xs) then Inr (xs ! nat i)
      else if i < 0 \<and> - int (length xs) \<le> i then Inr (xs ! nat (int (length xs) + i))
      else Inl Index_out_of_range)"

fun iterate :: "('a \<Rightarrow> 's \<Rightarrow> error + 's) \<Rightarrow> 's \<Rightarrow> 'a list \<Rightarrow> error + 's" where
  "iterate f s [] = Inr s"
| "iterate f s (x # xs) = (case f x s of Inl e \<Rightarrow> Inl e | Inr s' \<Rightarrow> iterate f s' xs)"

fun map_result :: "('a \<Rightarrow> error + 'b) \<Rightarrow> 'a list \<Rightarrow> error + 'b list" where
  "map_result f [] = Inr []"
| "map_result f (x # xs) =
     (case f x of
        Inl e \<Rightarrow> Inl e
      | Inr y \<Rightarrow> (case map_result f xs of Inl e \<Rightarrow> Inl e | Inr ys \<Rightarrow> Inr (y # ys)))"

definition sort_scenes :: "bool \<Rightarrow> scene list \<Rightarrow> scene list" where
  "sort_scenes ascending xs =
     (if ascending then sort_key system_time_start xs
      else rev (sort_key system_time_start xs))"

definition limit_scenes :: "nat \<Rightarrow> bool \<Rightarrow> scene list \<Rightarrow> scene list" where
  "limit_scenes n ascending xs = take n (sort_scenes ascending xs)"

subsection \<open>Buffering the time series\<close>

definition buffer_start :: "scene \<Rightarrow> scene" where
  "buffer_start img =
     img\<lparr>DOY := px_add (DOY img) (px_const 365),
         system_time_start := system_time_start img + 31536000000\<rparr>"

definition buffer_end :: "scene \<Rightarrow> scene" where
  "buffer_end img =
     img\<lparr>DOY := px_subtract (DOY img) (px_const 365),
         system_time_start := system_time_start img - 31536000000\<rparr>"

definition subset_bands_and_update_mask :: "scene \<Rightarrow> scene" where
  "subset_bands_and_update_mask img =
     img\<lparr>band_value := px_updateMask (band_value img) (px_mask (band_value img)),
         DOY := px_updateMask (DOY img) (px_mask (band_value img))\<rparr>"

definition pheno_buffered_of :: "scene list \<Rightarrow> nat \<Rightarrow> scene list" where
  "pheno_buffered_of pheno_in num_padding_scenes =
     (let first_few_scenes = map buffer_start (limit_scenes num_padding_scenes True pheno_in);
          last_few_scenes = map buffer_end (limit_scenes num_padding_scenes False pheno_in)
      in map subset_bands_and_update_mask
           (sort_scenes True (last_few_scenes @ (pheno_in @ first_few_scenes))))"

subsection \<open>Preceding and following images\<close>

text \<open>
  The images \<open>first\<close> and \<open>last\<close> of the source start the two scans (\<open>last\<close> is
  \<open>last_scene\<close> here).  \<open>get_previous_unmasked_scene\<close> appends to the running list
  the current image where it is unmasked and the previous entry of the list elsewhere.
\<close>

definition first :: two_band where
  "first = \<lparr>band_value = px_const 0, DOY = px_const 0\<rparr>"

definition last_scene :: two_band where
  "last_scene = \<lparr>band_value = px_const 0, DOY = px_const 365\<rparr>"

definition get_previous_unmasked_scene :: "scene \<Rightarrow> two_band list \<Rightarrow> error + two_band list" where
  "get_previous_unmasked_scene current_image running_list =
     (case ee_get running_list (- 1) of
        Inl e \<Rightarrow> Inl e
      | Inr previous \<Rightarrow>
          (let current_unmasked = px_mask (band_value current_image)
           in Inr (running_list @
                [\<lparr>band_value =
                    px_add (px_multiply (px_unmask (band_value current_image)) current_unmasked)
                      (px_multiply (px_unmask (band_value previous)) (px_not current_unmasked)),
                  DOY =
                    px_add (px_multiply (px_unmask (DOY current_image)) current_unmasked)
                      (px_multiply (px_unmask (DOY previous)) (px_not current_unmasked))\<rparr>])))"

definition indices_to_retain_of :: "nat \<Rightarrow> 'a list \<Rightarrow> int list" where
  "indices_to_retain_of num_padding_scenes scan =
     [int num_padding_scenes + 1 .. int (length scan) - int num_padding_scenes - 1]"

definition previous_unmasked_scene_of :: "scene list \<Rightarrow> nat \<Rightarrow> error + two_band list" where
  "previous_unmasked_scene_of pheno_in num_padding_scenes =
     (case iterate get_previous_unmasked_scene [first]
             (pheno_buffered_of pheno_in num_padding_scenes) of
        Inl e \<Rightarrow> Inl e
      | Inr previous_unmasked_scene \<Rightarrow>
          map_result (\<lambda>ind. ee_get previous_unmasked_scene (ind - 1))
            (indices_to_retain_of num_padding_scenes previous_unmasked_scene))"

definition next_unmasked_scene_of :: "scene list \<Rightarrow> nat \<Rightarrow> error + two_band list" where
  "next_unmasked_scene_of pheno_in num_padding_scenes =
     (case iterate get_previous_unmasked_scene [first]
             (pheno_buffered_of pheno_in num_padding_scenes) of
        Inl e \<Rightarrow> Inl e
      | Inr previous_unmasked_scene \<Rightarrow>
          (case iterate get_previous_unmasked_scene [last_scene]
                  (sort_scenes False (pheno_buffered_of pheno_in num_padding_scenes)) of
             Inl e \<Rightarrow> Inl e
           | Inr next_unmasked_scene \<Rightarrow>
               map_result (\<lambda>ind. ee_get next_unmasked_scene (ind * (- 1) - 1))
                 (indices_to_retain_of num_padding_scenes previous_unmasked_scene)))"

subsection \<open>The target images and the check of each value\<close>

text \<open>
  \<open>pheno_in_list\<close> starts with a filler made from \<open>pheno_in.first()\<close>, which an empty
  collection does not have.  \<open>check_scene\<close> is the body of \<open>check_value\<close> once the
  three images are read from the lists.
\<close>

definition pheno_in_list_of :: "scene list \<Rightarrow> error + scene list" where
  "pheno_in_list_of pheno_in =
     (case pheno_in of
        [] \<Rightarrow> Inl Empty_collection
      | img # _ \<Rightarrow>
          Inr (img\<lparr>band_value :=
                      px_multiply (px_set_mask (band_value img) (px_const 1)) (px_const 0),
                    DOY := px_multiply (px_set_mask (DOY img) (px_const 1)) (px_const 0)\<rparr>
               # sort_scenes True pheno_in))"

definition check_scene :: "real \<Rightarrow> real \<Rightarrow> two_band \<Rightarrow> two_band \<Rightarrow> scene \<Rightarrow> filtered_scene" where
  "check_scene threshold_low threshold_high previous_scene next_scene current_scene =
     (let neighbor_change_value = px_subtract (band_value next_scene) (band_value previous_scene);
          neighbor_change_DOY = px_subtract (DOY next_scene) (DOY previous_scene);
          slope = px_divide neighbor_change_value neighbor_change_DOY;
          expected_value =
            px_add (px_multiply (px_subtract (DOY current_scene) (DOY previous_scene)) slope)
              (band_value previous_scene);
          difference = px_subtract (band_value current_scene) expected_value;
          within_low_threshold = px_lt (px_const threshold_low) difference;
          within_high_threshold = px_gt (px_const threshold_high) difference;
          allowed = px_multiply within_low_threshold within_high_threshold
      in \<lparr>band_value = px_updateMask (band_value current_scene) allowed,
          DOY = px_updateMask (DOY current_scene) allowed,
          system_time_start = system_time_start current_scene,
          reg_diff = difference,
          reg_expected = expected_value,
          previous_value = band_value previous_scene,
          previous_DOY = DOY previous_scene,
          next_value = band_value next_scene,
          next_DOY = DOY next_scene\<rparr>)"

definition check_value ::
  "real \<Rightarrow> real \<Rightarrow> two_band list \<Rightarrow> two_band list \<Rightarrow> scene list \<Rightarrow> int
     \<Rightarrow> error + filtered_scene" where
  "check_value threshold_low threshold_high previous_unmasked_scene next_unmasked_scene
       pheno_in_list ind =
     (case ee_get previous_unmasked_scene ind of
        Inl e \<Rightarrow> Inl e
      | Inr previous_scene \<Rightarrow>
          (case ee_get next_unmasked_scene ind of
             Inl e \<Rightarrow> Inl e
           | Inr next_scene \<Rightarrow>
               (case ee_get pheno_in_list (ind + 1) of
                  Inl e \<Rightarrow> Inl e
                | Inr current_scene \<Rightarrow>
                    Inr (check_scene threshold_low threshold_high previous_scene next_scene
                           current_scene))))"

definition cloud_temporal_filter ::
  "scene list \<Rightarrow> real \<Rightarrow> real \<Rightarrow> nat \<Rightarrow> error + filtered_scene list" where
  "cloud_temporal_filter pheno_in threshold_low threshold_high num_padding_scenes =
     (case previous_unmasked_scene_of pheno_in num_padding_scenes of
        Inl e \<Rightarrow> Inl e
      | Inr previous_unmasked_scene \<Rightarrow>
          (case next_unmasked_scene_of pheno_in num_padding_scenes of
             Inl e \<Rightarrow> Inl e
           | Inr next_unmasked_scene \<Rightarrow>
               (case pheno_in_list_of pheno_in of
                  Inl e \<Rightarrow> Inl e
                | Inr pheno_in_list \<Rightarrow>
                    map_result
                      (check_value threshold_low threshold_high previous_unmasked_scene
                         next_unmasked_scene pheno_in_list)
                      [0 .. int (length pheno_in) - 1])))"

text \<open>
  The neighbours in the words of the specification: the nearest valid observation strictly
  before, respectively strictly after, a position of the buffered series, or the image
  \<open>first\<close> (value 0 at day of year 0), respectively \<open>last\<close> (value 0 at day of
  year 365), when there is none.  The day of year is read through \<open>unmask()\<close>, as the
  scan reads it.
\<close>

definition observation_of :: "scene \<Rightarrow> two_band" where
  "observation_of img = \<lparr>band_value = band_value img, DOY = px_unmask (DOY img)\<rparr>"

definition nearest_valid_before :: "scene list \<Rightarrow> nat \<Rightarrow> two_band" where
  "nearest_valid_before series k =
     (case filter (\<lambda>img. valid (band_value img)) (rev (take k series)) of
        [] \<Rightarrow> first
      | img # _ \<Rightarrow> observation_of img)"

definition nearest_valid_after :: "scene list \<Rightarrow> nat \<Rightarrow> two_band" where
  "nearest_valid_after series k =
     (case filter (\<lambda>img. valid (band_value img)) (drop (Suc k) series) of
        [] \<Rightarrow> last_scene
      | img # _ \<Rightarrow> observation_of img)"

text \<open>Notions used in the proofs about the two scans.\<close>

definition fully_valid :: "two_band \<Rightarrow> bool" where
  "fully_valid c \<longleftrightarrow> valid (band_value c) \<and> valid (DOY c)"

definition carry :: "two_band \<Rightarrow> scene \<Rightarrow> two_band" where
  "carry c img = (if valid (band_value img) then observation_of img else c)"

definition carry_at :: "two_band \<Rightarrow> scene list \<Rightarrow> nat \<Rightarrow> two_band" where
  "carry_at c0 bs j =
     (case filter (\<lambda>img. valid (band_value img)) (rev (take j bs)) of
        [] \<Rightarrow> c0
      | img # _ \<Rightarrow> observation_of img)"

section \<open>Operators and inputs of the examples\<close>

text \<open>
  The examples evaluate the model at a pixel where the reducers of Earth Engine return
  given values: the count of the scenes, the constant coefficients of the two regressions
  (the other coefficients are 0), the median and the standard deviation.  The calendar is
  that of the year 1970, for target dates in that year: it starts at date 0, its 31 December
  starts 364 days later, and one year before or after is 365 days away.
\<close>

definition example_ee :: "real \<Rightarrow> real \<Rightarrow> real \<Rightarrow> real \<Rightarrow> real \<Rightarrow> earth_engine" where
  "example_ee scene_count quadratic_constant linear_constant window_median window_stdev =
     \<lparr>ee_median = (\<lambda>_. px_const window_median),
      ee_min = (\<lambda>_. px_const (window_median - window_stdev)),
      ee_max = (\<lambda>_. px_const (window_median + window_stdev)),
      ee_stdDev = (\<lambda>_. px_const window_stdev),
      ee_count = (\<lambda>_. px_const scene_count),
      ee_robust_quadratic = (\<lambda>_. (px_const quadratic_constant, px_const 0, px_const 0)),
      ee_robust_linear = (\<lambda>_. (px_const linear_constant, px_const 0)),
      ee_year_start = (\<lambda>_. 0),
      ee_year_end = (\<lambda>_. 364 * ms_per_day),
      ee_advance_year = (\<lambda>n d. d + n * (365 * ms_per_day))\<rparr>"

definition example_image :: "int \<Rightarrow> real \<Rightarrow> image" where
  "example_image day v =
     \<lparr>time_start = Some (day * ms_per_day), time = px_const (1970 + real_of_int day / 365.25),
      band = px_const v\<rparr>"

definition six_scenes :: "image list" where
  "six_scenes = map (\<lambda>d. example_image d 0.5) [0, 1, 2, 3, 4, 5]"

definition four_scenes :: "image list" where
  "four_scenes = map (\<lambda>d. example_image d 0.5) [0, 1, 2, 3]"

definition two_scenes :: "image list" where
  "two_scenes = map (\<lambda>d. example_image d 0.5) [0, 1]"

definition example_median :: "pixel \<times> pixel" where
  "example_median = (px_const 1970, px_const 0.5)"

definition year_scenes :: "image list" where
  "year_scenes = map (\<lambda>d. example_image d 0.5) [5, 200, 330, 360, 380]"

text \<open>
  Scenes of the cloud filter: an unmasked value at a day, which is also its day of year.
\<close>

definition example_scene :: "int \<Rightarrow> real \<Rightarrow> scene" where
  "example_scene day v =
     \<lparr>band_value = px_const v, DOY = px_const (real_of_int day),
      system_time_start = day * ms_per_day\<rparr>"

definition three_scenes :: "real \<Rightarrow> real \<Rightarrow> real \<Rightarrow> scene list" where
  "three_scenes a b c = [example_scene 0 a, example_scene 5 b, example_scene 10 c]"

definition long_series :: "scene list" where
  "long_series = [example_scene 0 10, example_scene 400 16, example_scene 800 12]"

definition gap_series :: "scene list" where
  "gap_series =
     [example_scene 0 10,
      (example_scene 5 100)\<lparr>band_value := \<lparr>val = 100, valid = False\<rparr>\<rparr>,
      example_scene 10 12]"

text \<open>
  Operators at a pixel where the quadratic regression has no result (its coefficients are
  masked); operators whose regressions have coefficients on every term; and operators whose
  median tells the empty collection apart (99 there, 0.5 elsewhere).
\<close>

definition masked_fit_ee :: earth_engine where
  "masked_fit_ee =
     (example_ee 6 0.9 0.7 0.5 0.1)
       \<lparr>ee_robust_quadratic :=
          (\<lambda>_. (\<lparr>val = 0.9, valid = False\<rparr>, \<lparr>val = 0, valid = False\<rparr>,
                 \<lparr>val = 0, valid = False\<rparr>))\<rparr>"

definition sloped_ee :: "real \<Rightarrow> earth_engine" where
  "sloped_ee scene_count =
     (example_ee scene_count 0 0 0.5 0.1)
       \<lparr>ee_robust_quadratic := (\<lambda>_. (px_const 1, px_const 2, px_const 3)),
         ee_robust_linear := (\<lambda>_. (px_const 4, px_const 5))\<rparr>"


section \<open>Properties of the phenology extraction\<close>

lemmas px_defs =
  px_const_def px_add_def px_subtract_def px_multiply_def px_divide_def px_gt_def px_lt_def
  px_eq_def px_not_def px_unmask_def px_mask_def px_set_mask_def px_updateMask_def

lemma reject_values_valid:
  assumes "valid p" "valid m" "valid s"
  shows "reject_values min_value max_value p m s =
     px_const (if val p < min_value \<or> val p < val m - val s * 1.5 then val m - val s
               else if val p > max_value \<or> val p > val m + val s * 1.5 then val m
               else val p)"
  using assms
  by (simp add: reject_values_def bad_data_high_def bad_data_low_def px_defs Let_def)

lemma choose_fit_cases:
  assumes "valid c"
  shows "choose_fit c q l m =
     (if val c < 3 then m
      else if val c < 6 then \<lparr>val = (if valid l then val l else 0), valid = valid m\<rparr>
      else \<lparr>val = (if valid l then (if valid q then val q else 0) else 0), valid = valid m\<rparr>)"
  using assms
  by (cases m) (simp add: choose_fit_def px_defs Let_def)

lemma map_band_regression_data: "map band (regression_data_of w) = map band w"
  by (simp add: regression_data_of_def addConstant_def addTimeSquared_def comp_def)

lemma prediction_filtered_get_window_fit:
  "prediction_filtered
     (get_window_fit ee input_collection a f target_date min_value max_value cm wrap_data) =
   reject_values min_value max_value
     (model_prediction_of ee
        (window_of ee input_collection a f target_date
           (default_collection_median ee input_collection cm) wrap_data)
        (target_time_of target_date))
     (ee_median ee (map band
        (window_of ee input_collection a f target_date
           (default_collection_median ee input_collection cm) wrap_data)))
     (ee_stdDev ee (map band
        (window_of ee input_collection a f target_date
           (default_collection_median ee input_collection cm) wrap_data)))"
  by (simp add: get_window_fit_def Let_def)

lemma example_ee_simps:
  "ee_median (example_ee c q l m s) ps = px_const m"
  "ee_stdDev (example_ee c q l m s) ps = px_const s"
  "ee_count (example_ee c q l m s) ps = px_const c"
  "ee_robust_quadratic (example_ee c q l m s) rs = (px_const q, px_const 0, px_const 0)"
  "ee_robust_linear (example_ee c q l m s) rs' = (px_const l, px_const 0)"
  by (simp_all add: example_ee_def)

lemma example_model_prediction:
  "model_prediction_of (example_ee c q l m s) w t =
     px_const (if c < 3 then m else if c < 6 then l else q)"
  by (simp add: model_prediction_of_def choose_fit_cases example_ee_simps
      quadratic_prediction_of_def linear_prediction_of_def quadratic_coeffs_of_def
      linear_coeffs_of_def px_defs)

text \<open>
  Claim C1.  When the prediction entering the rejection stage is flagged low (below
  \<open>min_value\<close>, or below the window median minus 1.5 standard deviations), the emitted
  \<open>prediction_filtered\<close> is the median minus the standard deviation.  When it is flagged
  high (above \<open>max_value\<close>, or above the median plus 1.5 standard deviations) and not
  low, the emitted value is the window median itself, not the median plus the standard
  deviation: line 161 adds the standard deviation outside the product with the mask and
  line 162 subtracts it again.
\<close>

theorem flagged_prediction_replacement:
  assumes "window = window_of ee input_collection advance_window_width following_window_width
             target_date (default_collection_median ee input_collection collection_median)
             wrap_data"
    and "prediction = model_prediction_of ee window (target_time_of target_date)"
    and "m = ee_median ee (map band window)"
    and "s = ee_stdDev ee (map band window)"
    and "valid prediction" and "valid m" and "valid s"
  shows "(val prediction < min_value \<or> val prediction < val m - 1.5 * val s \<longrightarrow>
            prediction_filtered
              (get_window_fit ee input_collection advance_window_width following_window_width
                 target_date min_value max_value collection_median wrap_data)
            = px_const (val m - val s))
       \<and> ((max_value < val prediction \<or> val m + 1.5 * val s < val prediction) \<and>
          \<not> (val prediction < min_value \<or> val prediction < val m - 1.5 * val s) \<longrightarrow>
            prediction_filtered
              (get_window_fit ee input_collection advance_window_width following_window_width
                 target_date min_value max_value collection_median wrap_data)
            = m)"
  using assms
  by (cases m) (simp add: prediction_filtered_get_window_fit reject_values_valid px_const_def)

text \<open>
  At a pixel whose window has six clear scenes, median 0.5 and standard deviation 0.1, and
  whose quadratic fit predicts 0.9 (above 0.5 + 0.15), the emitted value is 0.5 and not 0.6.
\<close>

theorem flagged_prediction_replacement_witness:
  "valid (model_prediction_of (example_ee 6 0.9 0.7 0.5 0.1)
            (window_of (example_ee 6 0.9 0.7 0.5 0.1) six_scenes 30 30 0
               (default_collection_median (example_ee 6 0.9 0.7 0.5 0.1) six_scenes None) False)
            (target_time_of 0))
   \<and> 0.5 + 1.5 * 0.1 <
     val (model_prediction_of (example_ee 6 0.9 0.7 0.5 0.1)
            (window_of (example_ee 6 0.9 0.7 0.5 0.1) six_scenes 30 30 0
               (default_collection_median (example_ee 6 0.9 0.7 0.5 0.1) six_scenes None) False)
            (target_time_of 0))
   \<and> prediction_filtered
       (get_window_fit (example_ee 6 0.9 0.7 0.5 0.1) six_scenes 30 30 0 (- 1) 1 None False)
     = px_const 0.5
   \<and> px_const 0.5 \<noteq> px_const (0.5 + 0.1)"
  using flagged_prediction_replacement
    [OF refl refl refl refl, of "example_ee 6 0.9 0.7 0.5 0.1" six_scenes 30 30 0 None False
      "- 1" 1]
  by (simp add: example_model_prediction example_ee_simps px_const_def)

text \<open>
  In exact arithmetic, a prediction that is flagged neither high nor low passes the
  rejection stage unchanged: the standard deviation added by line 161 is subtracted again
  by line 162.
\<close>

lemma unflagged_prediction_exact_arithmetic:
  assumes "window = window_of ee input_collection advance_window_width following_window_width
             target_date (default_collection_median ee input_collection collection_median)
             wrap_data"
    and "prediction = model_prediction_of ee window (target_time_of target_date)"
    and "m = ee_median ee (map band window)"
    and "s = ee_stdDev ee (map band window)"
    and "valid prediction" and "valid m" and "valid s"
    and "min_value \<le> val prediction" and "val prediction \<le> max_value"
    and "val m - 1.5 * val s \<le> val prediction" and "val prediction \<le> val m + 1.5 * val s"
  shows "prediction_filtered
           (get_window_fit ee input_collection advance_window_width following_window_width
              target_date min_value max_value collection_median wrap_data)
         = prediction"
  using assms
  by (cases prediction)
     (simp add: prediction_filtered_get_window_fit reject_values_valid px_const_def)

lemmas fl_defs = px_add_fl_def px_subtract_fl_def px_multiply_fl_def

lemma reject_values_fl_exact:
  "reject_values_fl (\<lambda>x. x) min_value max_value p m s = reject_values min_value max_value p m s"
  by (simp add: reject_values_fl_def reject_values_def bad_data_high_def bad_data_low_def
      Let_def fl_defs px_add_def px_subtract_def px_multiply_def)

lemma reject_values_fl_unflagged:
  assumes "valid p" and "valid m" and "valid s"
    and "rnd 0 = 0" and "rnd (val p) = val p" and "rnd (val s) = val s"
    and "rnd (- val s) = - val s"
    and "rnd (val s * 1.5) = h" and "rnd (val m + h) = hi" and "rnd (val m - h) = lo"
    and "rnd (val p + val s) = q" and "rnd q = q" and "rnd (q - val s) = r"
    and "min_value \<le> val p" and "val p \<le> max_value" and "lo \<le> val p" and "val p \<le> hi"
  shows "reject_values_fl rnd min_value max_value p m s = px_const r"
  using assms by (simp add: reject_values_fl_def Let_def fl_defs px_defs)

lemma binary64_binade:
  assumes "2 powi e \<le> \<bar>x\<bar>" and "\<bar>x\<bar> < 2 powi (e + 1)"
  shows "binary64 x = of_int (rne (x / 2 powi (e - 52))) * 2 powi (e - 52)"
proof -
  have pos: "0 < \<bar>x\<bar>"
    using assms(1) by (smt (verit) zero_less_power_int)
  have "(2 :: real) powr real_of_int e = 2 powi e"
    "(2 :: real) powr (real_of_int e + 1) = 2 powi (e + 1)"
    using powr_real_of_int' [of "2 :: real" e] powr_real_of_int' [of "2 :: real" "e + 1"]
    by simp_all
  then have "\<lfloor>log 2 \<bar>x\<bar>\<rfloor> = e"
    using assms pos by (simp add: floor_log_eq_powr_iff)
  then show ?thesis
    using pos by (simp add: binary64_def)
qed

text \<open>
  Claim C9.  In the floating-point arithmetic of the program the rejection stage does not
  return an unflagged prediction unchanged.  With the default bounds \<open>-1\<close> and \<open>1\<close>, the
  window median 0.25 and the standard deviation 0.25, the prediction 0.3 (the double
  \<open>5404319552844595 / 2^54\<close>) is flagged neither high nor low, and lines 161 and 162
  return \<open>(0.3 + 0.25) - 0.25\<close>, which is the next double, \<open>5404319552844596 / 2^54\<close>:
  the standard deviation added by line 161 is not cancelled exactly by the one that line 162
  subtracts.
\<close>

theorem unflagged_prediction_rounded:
  "binary64 (3 / 10) = 5404319552844595 / 2 ^ 54
   \<and> - 1 \<le> binary64 (3 / 10) \<and> binary64 (3 / 10) \<le> 1
   \<and> binary64 (1 / 4 - binary64 (1 / 4 * 1.5)) \<le> binary64 (3 / 10)
   \<and> binary64 (3 / 10) \<le> binary64 (1 / 4 + binary64 (1 / 4 * 1.5))
   \<and> reject_values_fl binary64 (- 1) 1 (px_const (binary64 (3 / 10))) (px_const (1 / 4))
       (px_const (1 / 4))
     = px_const (5404319552844596 / 2 ^ 54)
   \<and> reject_values_fl binary64 (- 1) 1 (px_const (binary64 (3 / 10))) (px_const (1 / 4))
       (px_const (1 / 4))
     \<noteq> px_const (binary64 (3 / 10))"
proof -
  let ?p = "px_const (binary64 (3 / 10))"
  let ?m = "px_const (1 / 4)"
  have p: "binary64 (3 / 10) = 5404319552844595 / 2 ^ 54"
    using binary64_binade [of "- 2" "3 / 10"] by (simp add: rne_def)
  have v: "valid ?p" "valid ?m"
    by (simp_all add: px_const_def)
  have z: "binary64 0 = 0"
    by (simp add: binary64_def)
  have rp: "binary64 (val ?p) = val ?p"
    using binary64_binade [of "- 2" "5404319552844595 / 2 ^ 54"]
    by (simp add: px_const_def p rne_def)
  have rs: "binary64 (val ?m) = val ?m"
    using binary64_binade [of "- 2" "1 / 4"] by (simp add: px_const_def rne_def)
  have rn: "binary64 (- val ?m) = - val ?m"
    using binary64_binade [of "- 2" "- (1 / 4)"] by (simp add: px_const_def rne_def)
  have h: "binary64 (val ?m * 1.5) = 3 / 8"
    using binary64_binade [of "- 2" "3 / 8"] by (simp add: px_const_def rne_def)
  have hi: "binary64 (val ?m + 3 / 8) = 5 / 8"
    using binary64_binade [of "- 1" "5 / 8"] by (simp add: px_const_def rne_def)
  have lo: "binary64 (val ?m - 3 / 8) = - (1 / 8)"
    using binary64_binade [of "- 3" "- (1 / 8)"] by (simp add: px_const_def rne_def)
  have q: "binary64 (val ?p + val ?m) = 4953959590107546 / 2 ^ 53"
    using binary64_binade [of "- 1" "5404319552844595 / 2 ^ 54 + 1 / 4"]
    by (simp add: px_const_def p rne_def)
  have rq: "binary64 (4953959590107546 / 2 ^ 53) = 4953959590107546 / 2 ^ 53"
    using binary64_binade [of "- 1" "4953959590107546 / 2 ^ 53"] by (simp add: rne_def)
  have r: "binary64 (4953959590107546 / 2 ^ 53 - val ?m) = 5404319552844596 / 2 ^ 54"
    using binary64_binade [of "- 2" "4953959590107546 / 2 ^ 53 - 1 / 4"]
    by (simp add: px_const_def rne_def)
  have b: "- 1 \<le> val ?p" "val ?p \<le> 1" "- (1 / 8) \<le> val ?p" "val ?p \<le> 5 / 8"
    by (simp_all add: px_const_def p)
  have e: "reject_values_fl binary64 (- 1) 1 ?p ?m ?m = px_const (5404319552844596 / 2 ^ 54)"
    by (rule reject_values_fl_unflagged [OF v(1) v(2) v(2) z rp rs rn h hi lo q rq r b])
  have t: "binary64 (1 / 4 * 1.5) = 3 / 8" "binary64 (1 / 4 + 3 / 8) = 5 / 8"
    "binary64 (1 / 4 - 3 / 8) = - (1 / 8)"
    using h hi lo by (simp_all add: px_const_def)
  have c3: "binary64 (1 / 4 - binary64 (1 / 4 * 1.5)) \<le> binary64 (3 / 10)"
    "binary64 (3 / 10) \<le> binary64 (1 / 4 + binary64 (1 / 4 * 1.5))"
    unfolding t using b by (simp_all add: px_const_def)
  have c1: "- 1 \<le> binary64 (3 / 10)" "binary64 (3 / 10) \<le> 1"
    using b by (simp_all add: px_const_def)
  have ne: "reject_values_fl binary64 (- 1) 1 ?p ?m ?m \<noteq> ?p"
    unfolding e by (simp add: px_const_def p)
  show ?thesis
    by (intro conjI p c1 c3 e ne)
qed

lemma window_of_plain:
  "window_of ee xs a f t cm False =
     filter (in_date_range (advance_day (- a) t) t) xs
     @ filter (in_date_range t (advance_day f t)) xs
     @ [masked_zero_image cm]"
  by (simp add: window_of_def Let_def filterDate_def)

lemma example_image_simps:
  "in_date_range a b (example_image d v) = (a \<le> d * ms_per_day \<and> d * ms_per_day < b)"
  "valid (band (example_image d v))"
  "\<not> valid (band (masked_zero_image cm))"
  by (simp_all add: in_date_range_def example_image_def masked_zero_image_def px_defs)

lemma example_scene_counts:
  "length (filter valid (map band (window_of ee six_scenes 30 30 0 cm False))) = 6"
  "length (filter valid (map band (window_of ee four_scenes 30 30 0 cm False))) = 4"
  "length (filter valid (map band (window_of ee two_scenes 30 30 0 cm False))) = 2"
  by (simp_all add: window_of_plain six_scenes_def four_scenes_def two_scenes_def
      example_image_simps advance_day_def ms_per_day_def)

lemma regression_rows:
  "map (\<lambda>img. (constant_band img, time img, time_sq img, band img)) (regression_data_of w)
   = map (\<lambda>img. (px_const 1, time img, px_multiply (time img) (time img), band img)) w"
  "map (\<lambda>img. (constant_band img, time img, band img)) (regression_data_of w)
   = map (\<lambda>img. (px_const 1, time img, band img)) w"
  by (simp_all add: regression_data_of_def addConstant_def addTimeSquared_def comp_def)

text \<open>
  Claim C2, as stated, fails where the chosen fit is masked: at a pixel with six valid
  scenes in the window and no result of the quadratic regression, the prediction entering
  the rejection stage is an unmasked 0, which is neither the quadratic model (masked there)
  nor the linear model (0.7) nor the window median (0.5).
\<close>

theorem masked_quadratic_fit_counterexample:
  "length (filter valid (map band
      (window_of masked_fit_ee six_scenes 30 30 0
         (default_collection_median masked_fit_ee six_scenes None) False))) = 6
   \<and> \<not> valid (quadratic_prediction_of
        (quadratic_coeffs_of masked_fit_ee
           (window_of masked_fit_ee six_scenes 30 30 0
              (default_collection_median masked_fit_ee six_scenes None) False))
        (target_time_of 0))
   \<and> linear_prediction_of
       (linear_coeffs_of masked_fit_ee
          (window_of masked_fit_ee six_scenes 30 30 0
             (default_collection_median masked_fit_ee six_scenes None) False))
       (target_time_of 0) = px_const 0.7
   \<and> ee_median masked_fit_ee (map band
        (window_of masked_fit_ee six_scenes 30 30 0
           (default_collection_median masked_fit_ee six_scenes None) False)) = px_const 0.5
   \<and> model_prediction_of masked_fit_ee
       (window_of masked_fit_ee six_scenes 30 30 0
          (default_collection_median masked_fit_ee six_scenes None) False)
       (target_time_of 0) = px_const 0"
proof -
  have e: "ee_count masked_fit_ee ps = px_const 6" "ee_median masked_fit_ee ps = px_const 0.5"
    "ee_robust_linear masked_fit_ee rs = (px_const 0.7, px_const 0)"
    "ee_robust_quadratic masked_fit_ee rs' =
       (\<lparr>val = 0.9, valid = False\<rparr>, \<lparr>val = 0, valid = False\<rparr>, \<lparr>val = 0, valid = False\<rparr>)"
    for ps rs rs'
    by (simp_all add: masked_fit_ee_def example_ee_def)
  have c: "valid (px_const 6)" "val (px_const 6) = 6"
    by (simp_all add: px_const_def)
  have "\<not> valid (quadratic_prediction_of (quadratic_coeffs_of masked_fit_ee w) t)"
    and "linear_prediction_of (linear_coeffs_of masked_fit_ee w) t = px_const 0.7"
    and "ee_median masked_fit_ee (map band w) = px_const 0.5"
    and "model_prediction_of masked_fit_ee w t = px_const 0" for w t
    by (simp_all add: model_prediction_of_def quadratic_coeffs_of_def linear_coeffs_of_def
        quadratic_prediction_of_def linear_prediction_of_def e choose_fit_cases c)
       (simp_all add: px_defs)
  then show ?thesis
    by (intro conjI example_scene_counts)
qed

text \<open>
  Claim C2, amended.  Let \<open>n\<close> be the number of valid observations of the target band in
  the window of \<open>get_window_fit\<close>, reported as such by the count reducer, \<open>t\<close> the
  target time, \<open>q0, q1, q2\<close> the coefficients of the quadratic regression of the window
  and \<open>l0, l1\<close> those of the linear regression.  The prediction that enters the rejection
  stage is, in this order of priority: when \<open>n \<ge> 6\<close>, the quadratic model
  \<open>q0 + q1 t + q2 t t\<close>; when \<open>3 \<le> n < 6\<close>, the linear model \<open>l0 + l1 t\<close>; when
  \<open>n < 3\<close>, the window median.  This holds where the fits are unmasked; where the chosen
  fit is masked (or, for \<open>n \<ge> 6\<close>, the linear fit) the value is 0, and for \<open>n \<ge> 3\<close> the
  prediction is masked exactly where the window median is.
\<close>

theorem prediction_entering_rejection:
  assumes "window = window_of ee input_collection advance_window_width following_window_width
             target_date (default_collection_median ee input_collection collection_median)
             wrap_data"
    and "t = target_time_of target_date"
    and "n = length (filter valid (map band window))"
    and "ee_count ee (map band window) = px_const (real n)"
    and "ee_robust_quadratic ee
           (map (\<lambda>img. (px_const 1, time img, px_multiply (time img) (time img), band img))
              window) = (q0, q1, q2)"
    and "ee_robust_linear ee (map (\<lambda>img. (px_const 1, time img, band img)) window) = (l0, l1)"
    and "m = ee_median ee (map band window)"
  shows "prediction_filtered
           (get_window_fit ee input_collection advance_window_width following_window_width
              target_date min_value max_value collection_median wrap_data)
         = reject_values min_value max_value (model_prediction_of ee window t) m
             (ee_stdDev ee (map band window))
       \<and> (6 \<le> n \<longrightarrow>
            model_prediction_of ee window t =
              \<lparr>val = (if valid l0 \<and> valid l1 \<and> valid q0 \<and> valid q1 \<and> valid q2
                      then val q0 + val q1 * t + val q2 * t * t else 0),
               valid = valid m\<rparr>)
       \<and> (3 \<le> n \<and> n < 6 \<longrightarrow>
            model_prediction_of ee window t =
              \<lparr>val = (if valid l0 \<and> valid l1 then val l0 + val l1 * t else 0),
               valid = valid m\<rparr>)
       \<and> (n < 3 \<longrightarrow> model_prediction_of ee window t = m)"
proof -
  let ?q = "quadratic_prediction_of (q0, q1, q2) t"
  let ?l = "linear_prediction_of (l0, l1) t"
  have c: "valid (px_const (real n))" "val (px_const (real n)) = real n"
    by (simp_all add: px_const_def)
  have q: "val ?q = val q0 + val q1 * t + val q2 * t * t"
    "valid ?q \<longleftrightarrow> valid q0 \<and> valid q1 \<and> valid q2"
    by (auto simp: quadratic_prediction_of_def px_defs)
  have l: "val ?l = val l0 + val l1 * t" "valid ?l \<longleftrightarrow> valid l0 \<and> valid l1"
    by (auto simp: linear_prediction_of_def px_defs)
  have p: "model_prediction_of ee window t = choose_fit (px_const (real n)) ?q ?l m"
    using assms(4-7)
    by (simp add: model_prediction_of_def map_band_regression_data quadratic_coeffs_of_def
        linear_coeffs_of_def regression_rows)
  have f: "prediction_filtered
           (get_window_fit ee input_collection advance_window_width following_window_width
              target_date min_value max_value collection_median wrap_data)
         = reject_values min_value max_value (model_prediction_of ee window t) m
             (ee_stdDev ee (map band window))"
    using assms(1,2,7) by (simp add: prediction_filtered_get_window_fit)
  have "6 \<le> n \<Longrightarrow> choose_fit (px_const (real n)) ?q ?l m =
      \<lparr>val = (if valid l0 \<and> valid l1 \<and> valid q0 \<and> valid q1 \<and> valid q2
              then val q0 + val q1 * t + val q2 * t * t else 0),
       valid = valid m\<rparr>"
    by (simp add: choose_fit_cases c q l)
  moreover have "3 \<le> n \<Longrightarrow> n < 6 \<Longrightarrow> choose_fit (px_const (real n)) ?q ?l m =
      \<lparr>val = (if valid l0 \<and> valid l1 then val l0 + val l1 * t else 0), valid = valid m\<rparr>"
    by (simp add: choose_fit_cases c l)
  moreover have "n < 3 \<Longrightarrow> choose_fit (px_const (real n)) ?q ?l m = m"
    by (simp add: choose_fit_cases c)
  ultimately show ?thesis
    using p f by simp
qed

text \<open>
  With the coefficients 1, 2, 3 of the quadratic fit and 4, 5 of the linear fit, at the
  target time 1970: six scenes give \<open>1 + 2 * 1970 + 3 * 1970 * 1970\<close>, four scenes give
  \<open>4 + 5 * 1970\<close>, two scenes give the median 0.5.
\<close>

theorem prediction_entering_rejection_witness:
  "target_time_of 0 = 1970
   \<and> length (filter valid (map band
        (window_of (sloped_ee 6) six_scenes 30 30 0
           (default_collection_median (sloped_ee 6) six_scenes None) False))) = 6
   \<and> model_prediction_of (sloped_ee 6)
       (window_of (sloped_ee 6) six_scenes 30 30 0
          (default_collection_median (sloped_ee 6) six_scenes None) False)
       (target_time_of 0) = px_const (1 + 2 * 1970 + 3 * 1970 * 1970)
   \<and> length (filter valid (map band
        (window_of (sloped_ee 4) four_scenes 30 30 0
           (default_collection_median (sloped_ee 4) four_scenes None) False))) = 4
   \<and> model_prediction_of (sloped_ee 4)
       (window_of (sloped_ee 4) four_scenes 30 30 0
          (default_collection_median (sloped_ee 4) four_scenes None) False)
       (target_time_of 0) = px_const (4 + 5 * 1970)
   \<and> length (filter valid (map band
        (window_of (sloped_ee 2) two_scenes 30 30 0
           (default_collection_median (sloped_ee 2) two_scenes None) False))) = 2
   \<and> model_prediction_of (sloped_ee 2)
       (window_of (sloped_ee 2) two_scenes 30 30 0
          (default_collection_median (sloped_ee 2) two_scenes None) False)
       (target_time_of 0) = px_const 0.5"
proof -
  let ?W6 = "window_of (sloped_ee 6) six_scenes 30 30 0
               (default_collection_median (sloped_ee 6) six_scenes None) False"
  let ?W4 = "window_of (sloped_ee 4) four_scenes 30 30 0
               (default_collection_median (sloped_ee 4) four_scenes None) False"
  let ?W2 = "window_of (sloped_ee 2) two_scenes 30 30 0
               (default_collection_median (sloped_ee 2) two_scenes None) False"
  have e: "ee_count (sloped_ee c) ps = px_const c" "ee_median (sloped_ee c) ps = px_const 0.5"
    "ee_robust_quadratic (sloped_ee c) rs = (px_const 1, px_const 2, px_const 3)"
    "ee_robust_linear (sloped_ee c) rs' = (px_const 4, px_const 5)" for c ps rs rs'
    by (simp_all add: sloped_ee_def example_ee_def)
  have t: "target_time_of 0 = 1970"
    by (simp add: target_time_of_def)
  have c6: "ee_count (sloped_ee 6) (map band ?W6)
              = px_const (real (length (filter valid (map band ?W6))))"
    unfolding example_scene_counts e by simp
  have c4: "ee_count (sloped_ee 4) (map band ?W4)
              = px_const (real (length (filter valid (map band ?W4))))"
    unfolding example_scene_counts e by simp
  have c2: "ee_count (sloped_ee 2) (map band ?W2)
              = px_const (real (length (filter valid (map band ?W2))))"
    unfolding example_scene_counts e by simp
  note w6 = prediction_entering_rejection [OF refl refl refl c6 e(3) e(4) refl, of "- 1" 1]
  note w4 = prediction_entering_rejection [OF refl refl refl c4 e(3) e(4) refl, of "- 1" 1]
  note w2 = prediction_entering_rejection [OF refl refl refl c2 e(3) e(4) refl, of "- 1" 1]
  have p6: "model_prediction_of (sloped_ee 6) ?W6 (target_time_of 0)
              = px_const (1 + 2 * 1970 + 3 * 1970 * 1970)"
    using w6 unfolding example_scene_counts e t by (simp add: px_const_def)
  have p4: "model_prediction_of (sloped_ee 4) ?W4 (target_time_of 0) = px_const (4 + 5 * 1970)"
    using w4 unfolding example_scene_counts e t by (simp add: px_const_def)
  have p2: "model_prediction_of (sloped_ee 2) ?W2 (target_time_of 0) = px_const 0.5"
    using w2 unfolding example_scene_counts e t by (simp add: px_const_def)
  show ?thesis
    by (intro conjI t example_scene_counts p6 p4 p2)
qed

text \<open>
  Claim C3.  For \<open>num_time_steps = k\<close> the collection returned by \<open>fit_phenology\<close>
  holds \<open>k + 1\<close> records, not \<open>k\<close>: one for every index of
  \<open>ee.List.sequence(0, num_time_steps)\<close>, which includes both ends.  The record of index
  \<open>i\<close> is at \<open>min_date\<close> advanced by \<open>i\<close> times
  \<open>floor((max_date - min_date) / k)\<close> days.
\<close>

theorem fit_phenology_record_count:
  "\<exists>records.
     fit_phenology ee input_collection advance_window_width following_window_width k
       min_date max_date min_value max_value wrap_data = Inr records
     \<and> length records = k + 1
     \<and> map time_out records =
         map (\<lambda>i. px_const (target_time_of
                (min_date + i * timing_interval_of min_date max_date k * ms_per_day)))
           [0 .. int k]"
  by (simp add: fit_phenology_def Let_def target_dates_of_def get_window_fit_def sampleDate_def
      advance_day_def comp_def)

text \<open>Twelve steps over the 365 days of 1970 give thirteen records.\<close>

lemma fit_phenology_twelve_steps:
  "map_sum id length
     (fit_phenology (example_ee 6 0.6 0.7 0.5 0.1) six_scenes 30 30 12 0 (365 * ms_per_day)
        (- 1) 1 False) = Inr 13"
  by (simp add: fit_phenology_def Let_def target_dates_of_def)

text \<open>
  Claim C8, as stated, fails: with \<open>max_date = min_date\<close> the call reports no error.
\<close>

theorem configuration_error_counterexample:
  "\<not> isl (fit_phenology (example_ee 6 0.6 0.7 0.5 0.1) six_scenes 30 30 12 0 0 (- 1) 1 False)"
  by (simp add: fit_phenology_def Let_def)

lemma timing_interval_nonpositive:
  assumes "max_date \<le> min_date"
  shows "timing_interval_of min_date max_date k \<le> 0"
proof -
  have "real_of_int (max_date - min_date) / real_of_int ms_per_day / real k \<le> 0"
    using assms by (simp add: ms_per_day_def divide_nonpos_nonneg)
  then show ?thesis
    unfolding timing_interval_of_def by (simp add: floor_le_zero)
qed

lemma target_dates_not_after_min_date:
  assumes "max_date \<le> min_date" and "d \<in> set (target_dates_of min_date max_date k)"
  shows "d \<le> min_date"
proof -
  from assms(2) obtain i where i: "0 \<le> i"
    and d: "d = min_date + i * timing_interval_of min_date max_date k * ms_per_day"
    by (auto simp: target_dates_of_def sampleDate_def advance_day_def)
  have "i * timing_interval_of min_date max_date k \<le> 0"
    using i timing_interval_nonpositive [OF assms(1), of k] by (simp add: mult_nonneg_nonpos)
  then have "i * timing_interval_of min_date max_date k * ms_per_day \<le> 0"
    by (simp add: ms_per_day_def)
  then show ?thesis
    using d by simp
qed

lemma target_time_of_mono: "d \<le> d' \<Longrightarrow> target_time_of d \<le> target_time_of d'"
  by (simp add: target_time_of_def divide_right_mono)

text \<open>
  Claim C8, amended.  \<open>fit_phenology\<close> has no check of its parameters.  For
  \<open>num_time_steps > 0\<close> and \<open>max_date\<close> not after \<open>min_date\<close> it reports no error: it
  goes on to the computation for each target date and returns their records, none of them
  at a time after \<open>min_date\<close>.
\<close>

theorem fit_phenology_reports_no_error:
  assumes "0 < k" and "max_date \<le> min_date"
  shows "\<exists>records.
     fit_phenology ee input_collection advance_window_width following_window_width k
       min_date max_date min_value max_value wrap_data = Inr records
     \<and> records \<noteq> []
     \<and> (\<forall>r \<in> set records. valid (time_out r) \<and> val (time_out r) \<le> target_time_of min_date)"
proof -
  have "target_dates_of min_date max_date k \<noteq> []"
    by (simp add: target_dates_of_def)
  moreover have "valid (time_out (get_window_fit ee input_collection advance_window_width
      following_window_width d min_value max_value cm wrap_data))
    \<and> val (time_out (get_window_fit ee input_collection advance_window_width
      following_window_width d min_value max_value cm wrap_data)) \<le> target_time_of min_date"
    if "d \<in> set (target_dates_of min_date max_date k)" for d cm
    using target_time_of_mono [OF target_dates_not_after_min_date [OF assms(2) that]]
    by (simp add: get_window_fit_def Let_def px_const_def)
  ultimately show ?thesis
    by (auto simp: fit_phenology_def Let_def)
qed

theorem fit_phenology_reports_no_error_witness:
  "(0 :: nat) < 4 \<and> (0 :: int) \<le> 10 * ms_per_day
   \<and> (\<exists>records.
        fit_phenology (example_ee 6 0.6 0.7 0.5 0.1) six_scenes 30 30 4 (10 * ms_per_day) 0
          (- 1) 1 False = Inr records
        \<and> records \<noteq> []
        \<and> list_all (\<lambda>r. valid (time_out r)
                        \<and> val (time_out r) \<le> target_time_of (10 * ms_per_day)) records)"
  using fit_phenology_reports_no_error
    [of 4 0 "10 * ms_per_day" "example_ee 6 0.6 0.7 0.5 0.1" six_scenes 30 30 "- 1" 1 False]
  by (simp add: ms_per_day_def list_all_iff)








text \<open>
  Claim C6, as stated, fails at the end of the interval: an observation at exactly
  \<open>target + lookahead\<close> (here day 40, for the target day 10 and 30 days after it) is not
  in the window.
\<close>

theorem window_closed_interval_counterexample:
  "time_start (example_image 40 0.5) = Some (advance_day 30 (10 * ms_per_day))
   \<and> example_image 40 0.5 \<notin>
       set (window_of (example_ee 6 0.6 0.7 0.5 0.1) [example_image 40 0.5] 30 30
              (10 * ms_per_day) example_median False)"
  by (simp add: window_of_def Let_def filterDate_def in_date_range_def example_image_def
      advance_day_def ms_per_day_def masked_zero_image_def)

lemma in_date_range_iff:
  "in_date_range a b img \<longleftrightarrow> (\<exists>ts. time_start img = Some ts \<and> a \<le> ts \<and> ts < b)"
  by (simp add: in_date_range_def split: option.splits)

text \<open>
  Claim C6, amended.  For window widths that are not negative, the window assembled by
  \<open>get_window_fit\<close> holds exactly: the observations whose timestamp \<open>ts\<close> satisfies
  \<open>target - lookback \<le> ts < target + lookahead\<close> (the end excluded); when \<open>wrap_data\<close>
  is set, also the observations from the start of the target's year to one year before
  \<open>target + lookahead\<close>, with the time band shifted by \<open>+1\<close>, and those from one year
  after \<open>target - lookback\<close> to the 31 December of the target's year, with the time band
  shifted by \<open>-1\<close>; and the masked zero image.  Without \<open>wrap_data\<close> no shifted
  observation is in the window.
\<close>

theorem window_membership:
  assumes "0 \<le> advance_window_width" and "0 \<le> following_window_width"
  shows "img \<in> set (window_of ee input_collection advance_window_width following_window_width
                      target_date collection_median wrap_data) \<longleftrightarrow>
     (img \<in> set input_collection
        \<and> (\<exists>ts. time_start img = Some ts
              \<and> target_date - advance_window_width * ms_per_day \<le> ts
              \<and> ts < target_date + following_window_width * ms_per_day))
     \<or> (wrap_data
        \<and> (\<exists>src \<in> set input_collection.
              img = src\<lparr>time := px_subtract (time src) (px_const 1)\<rparr>
              \<and> (\<exists>ts. time_start src = Some ts
                    \<and> ee_advance_year ee 1 target_date - advance_window_width * ms_per_day \<le> ts
                    \<and> ts < ee_year_end ee target_date)))
     \<or> (wrap_data
        \<and> (\<exists>src \<in> set input_collection.
              img = src\<lparr>time := px_add (time src) (px_const 1)\<rparr>
              \<and> (\<exists>ts. time_start src = Some ts
                    \<and> ee_year_start ee target_date \<le> ts
                    \<and> ts < ee_advance_year ee (- 1) target_date
                             + following_window_width * ms_per_day)))
     \<or> img = masked_zero_image collection_median"
proof -
  have day: "0 \<le> advance_window_width * ms_per_day" "0 \<le> following_window_width * ms_per_day"
    using assms by (simp_all add: ms_per_day_def)
  have plain: "img \<in> set (filterDate (advance_day (- advance_window_width) target_date)
                   target_date input_collection)
       \<or> img \<in> set (filterDate target_date (advance_day following_window_width target_date)
                   input_collection) \<longleftrightarrow>
     img \<in> set input_collection
        \<and> (\<exists>ts. time_start img = Some ts
              \<and> target_date - advance_window_width * ms_per_day \<le> ts
              \<and> ts < target_date + following_window_width * ms_per_day)"
    using day by (auto simp: filterDate_def in_date_range_iff advance_day_def)
  show ?thesis
  proof (cases wrap_data)
    case False
    then show ?thesis
      using plain by (auto simp: window_of_def Let_def)
  next
    case True
    then show ?thesis
      using plain
      by (auto simp: window_of_def Let_def addYear_def subtractYear_def filterDate_def
          in_date_range_iff advance_day_def image_iff)
  qed
qed

text \<open>
  For the target day 350 of 1970 and 30 days on either side, the scene of day 5 enters the
  window shifted by one year when \<open>wrap_data\<close> is set and not otherwise; the scene of day
  360 is in the window and the scene of day 380, at the excluded end, is not.
\<close>

theorem window_membership_witness:
  "(0 :: int) \<le> 30
   \<and> (example_image 5 0.5)\<lparr>time := px_add (time (example_image 5 0.5)) (px_const 1)\<rparr>
       \<in> set (window_of (example_ee 6 0.6 0.7 0.5 0.1) year_scenes 30 30 (350 * ms_per_day)
                example_median True)
   \<and> (example_image 5 0.5)\<lparr>time := px_add (time (example_image 5 0.5)) (px_const 1)\<rparr>
       \<notin> set (window_of (example_ee 6 0.6 0.7 0.5 0.1) year_scenes 30 30 (350 * ms_per_day)
                example_median False)
   \<and> example_image 360 0.5
       \<in> set (window_of (example_ee 6 0.6 0.7 0.5 0.1) year_scenes 30 30 (350 * ms_per_day)
                example_median True)
   \<and> example_image 380 0.5
       \<notin> set (window_of (example_ee 6 0.6 0.7 0.5 0.1) year_scenes 30 30 (350 * ms_per_day)
                example_median True)"
proof -
  have w: "(0 :: int) \<le> 30"
    by simp
  note m = window_membership [OF w w, of _ "example_ee 6 0.6 0.7 0.5 0.1" year_scenes
      "350 * ms_per_day" example_median]
  have y: "set year_scenes = {example_image 5 0.5, example_image 200 0.5,
      example_image 330 0.5, example_image 360 0.5, example_image 380 0.5}"
    by (simp add: year_scenes_def)
  have e: "ee_year_start (example_ee 6 0.6 0.7 0.5 0.1) d = 0"
    "ee_year_end (example_ee 6 0.6 0.7 0.5 0.1) d = 364 * ms_per_day"
    "ee_advance_year (example_ee 6 0.6 0.7 0.5 0.1) n d = d + n * (365 * ms_per_day)" for n d
    by (simp_all add: example_ee_def)
  show ?thesis
    unfolding m y e
    by (simp add: example_image_def ms_per_day_def masked_zero_image_def example_median_def
        px_defs)
qed

section \<open>Properties of the cloud filter\<close>

subsection \<open>The two scans\<close>

lemma iterate_append:
  "iterate f s (xs @ ys) =
     (case iterate f s xs of Inl e \<Rightarrow> Inl e | Inr s' \<Rightarrow> iterate f s' ys)"
  by (induction xs arbitrary: s) (auto split: sum.splits)

lemma ee_get_last: "running_list \<noteq> [] \<Longrightarrow> ee_get running_list (- 1) = Inr (last running_list)"
  by (cases running_list rule: rev_cases) (auto simp: ee_get_def)

lemma get_previous_unmasked_scene_step:
  assumes "running_list \<noteq> []" and "fully_valid (last running_list)"
  shows "get_previous_unmasked_scene img running_list
         = Inr (running_list @ [carry (last running_list) img])"
  using assms
  by (cases "last running_list")
     (simp add: get_previous_unmasked_scene_def ee_get_last carry_def observation_of_def
       fully_valid_def px_defs Let_def)

lemma carry_at_snoc:
  "j \<le> length bs \<Longrightarrow> carry_at c0 (bs @ [b]) j = carry_at c0 bs j"
  "carry_at c0 (bs @ [b]) (Suc (length bs)) = carry (carry_at c0 bs (length bs)) b"
  by (simp_all add: carry_at_def carry_def)

lemma fully_valid_carry: "fully_valid c \<Longrightarrow> fully_valid (carry c img)"
  by (simp add: carry_def fully_valid_def observation_of_def px_unmask_def)

lemma iterate_scan:
  assumes "fully_valid c0"
  shows "\<exists>L. iterate get_previous_unmasked_scene [c0] bs = Inr L
           \<and> length L = Suc (length bs)
           \<and> (\<forall>j \<le> length bs. L ! j = carry_at c0 bs j)
           \<and> (\<forall>c \<in> set L. fully_valid c)"
proof (induction bs rule: rev_induct)
  case Nil
  then show ?case
    using assms by (simp add: carry_at_def)
next
  case (snoc b bs)
  then obtain L where L: "iterate get_previous_unmasked_scene [c0] bs = Inr L"
    and len: "length L = Suc (length bs)"
    and nth: "\<forall>j \<le> length bs. L ! j = carry_at c0 bs j"
    and val: "\<forall>c \<in> set L. fully_valid c"
    by blast
  from len have ne: "L \<noteq> []"
    by auto
  have last: "last L = carry_at c0 bs (length bs)"
    using nth len ne by (simp add: last_conv_nth)
  have fv: "fully_valid (last L)"
    using val ne by simp
  let ?L' = "L @ [carry (last L) b]"
  have "iterate get_previous_unmasked_scene [c0] (bs @ [b]) = Inr ?L'"
    by (simp add: iterate_append L get_previous_unmasked_scene_step [OF ne fv])
  moreover have "length ?L' = Suc (length (bs @ [b]))"
    using len by simp
  moreover have "\<forall>j \<le> length (bs @ [b]). ?L' ! j = carry_at c0 (bs @ [b]) j"
  proof (intro allI impI)
    fix j
    assume "j \<le> length (bs @ [b])"
    then consider "j \<le> length bs" | "j = Suc (length bs)"
      by fastforce
    then show "?L' ! j = carry_at c0 (bs @ [b]) j"
    proof cases
      case 1
      then show ?thesis
        using nth len by (simp add: nth_append carry_at_snoc)
    next
      case 2
      then show ?thesis
        using len last by (simp add: nth_append carry_at_snoc)
    qed
  qed
  moreover have "\<forall>c \<in> set ?L'. fully_valid c"
    using val fully_valid_carry [OF fv] by simp
  ultimately show ?case
    by blast
qed

lemma map_result_Inr:
  "map_result f xs = Inr ys \<Longrightarrow>
     length ys = length xs \<and> (\<forall>i < length xs. f (xs ! i) = Inr (ys ! i))"
proof (induction xs arbitrary: ys)
  case Nil
  then show ?case by simp
next
  case (Cons x xs)
  then show ?case
    by (auto split: sum.splits simp: nth_Cons split: nat.splits)
qed

lemma map_result_total:
  assumes "\<And>x. x \<in> set xs \<Longrightarrow> f x = Inr (g x)"
  shows "map_result f xs = Inr (map g xs)"
  using assms by (induction xs) simp_all

lemma map_result_set:
  assumes "map_result f xs = Inr ys" and "y \<in> set ys"
  shows "\<exists>x \<in> set xs. f x = Inr y"
  using assms
proof (induction xs arbitrary: ys)
  case Nil
  then show ?case by simp
next
  case (Cons x xs)
  then show ?case
    by (auto split: sum.splits)
qed

lemma ee_get_Inr:
  assumes "ee_get xs k = Inr x"
  shows "x \<in> set xs" and "0 \<le> k \<Longrightarrow> nat k < length xs \<and> x = xs ! nat k"
  using assms by (auto simp: ee_get_def split: if_splits)

subsection \<open>The buffered series\<close>

lemma sort_key_unique:
  fixes f :: "'a \<Rightarrow> int"
  assumes "sorted_wrt (<) (map f ys)" and "set xs = set ys" and "length xs = length ys"
  shows "sort_key f xs = ys"
proof -
  let ?zs = "sort_key f xs"
  have dy: "distinct (map f ys)" and sy: "sorted (map f ys)"
    using assms(1) strict_sorted_iff by blast+
  have "card (set (map f ?zs)) = length (map f ?zs)"
    using distinct_card [OF dy] assms(2,3) by simp
  then have dz: "distinct (map f ?zs)"
    by (rule card_distinct)
  have "map f ?zs = map f ys"
    using dz dy sy assms(2) by (intro sorted_distinct_set_unique) simp_all
  moreover have inj: "inj_on f (set ys)"
    using dy by (simp add: distinct_map)
  ultimately show ?thesis
  proof (intro nth_equalityI)
    show "length ?zs = length ys"
      using assms(3) by simp
  next
    fix i
    assume i: "i < length ?zs"
    assume m: "map f ?zs = map f ys"
    have "f (?zs ! i) = f (ys ! i)"
      using i m by (metis length_map nth_map)
    moreover have "?zs ! i \<in> set ys" "ys ! i \<in> set ys"
      using i assms(2,3) by (metis nth_mem set_sort, simp)
    ultimately show "?zs ! i = ys ! i"
      using inj by (simp add: inj_on_def)
  qed
qed

lemma strictly_sorted_bounds:
  fixes f :: "'a \<Rightarrow> int"
  assumes "sorted_wrt (<) (map f xs)" and "x \<in> set xs"
  shows "f (hd xs) \<le> f x" and "f x \<le> f (last xs)"
proof -
  from assms(2) obtain i where i: "i < length xs" "x = xs ! i"
    by (auto simp: in_set_conv_nth)
  have s: "sorted (map f xs)"
    using assms(1) by (rule strict_sorted_imp_sorted)
  have ne: "xs \<noteq> []"
    using assms(2) by auto
  show "f (hd xs) \<le> f x"
    using sorted_nth_mono [OF s, of 0 i] i ne by (simp add: hd_conv_nth)
  show "f x \<le> f (last xs)"
    using sorted_nth_mono [OF s, of i "length xs - 1"] i ne by (simp add: last_conv_nth)
qed

lemma pheno_buffered_explicit:
  assumes sorted: "sorted_wrt (<) (map system_time_start pheno_in)"
    and span: "system_time_start (last pheno_in) - system_time_start (hd pheno_in) < 31536000000"
    and p: "p \<le> length pheno_in"
  shows "pheno_buffered_of pheno_in p =
     map subset_bands_and_update_mask
       (map buffer_end (drop (length pheno_in - p) pheno_in) @ pheno_in
          @ map buffer_start (take p pheno_in))"
proof -
  let ?D = "drop (length pheno_in - p) pheno_in"
  let ?F = "take p pheno_in"
  let ?T = "map buffer_end ?D @ pheno_in @ map buffer_start ?F"
  have asc: "sort_scenes True pheno_in = pheno_in"
    using sorted by (simp add: sort_scenes_def sort_key_id_if_sorted strict_sorted_imp_sorted)
  have first_few: "limit_scenes p True pheno_in = ?F"
    by (simp add: limit_scenes_def asc)
  have last_few: "limit_scenes p False pheno_in = rev ?D"
    using asc by (simp add: limit_scenes_def sort_scenes_def take_rev)
  have bounds: "system_time_start (hd pheno_in) \<le> system_time_start x"
    "system_time_start x \<le> system_time_start (last pheno_in)" if "x \<in> set pheno_in" for x
    using strictly_sorted_bounds [OF sorted that] by simp_all
  have inD: "x \<in> set pheno_in" if "x \<in> set ?D" for x
    using that by (rule in_set_dropD)
  have inF: "x \<in> set pheno_in" if "x \<in> set ?F" for x
    using that by (rule in_set_takeD)
  have sD: "sorted_wrt (<) (map system_time_start (map buffer_end ?D))"
    using sorted_wrt_drop [OF sorted, of "length pheno_in - p"]
    by (simp add: sorted_wrt_map drop_map buffer_end_def)
  have sF: "sorted_wrt (<) (map system_time_start (map buffer_start ?F))"
    using sorted_wrt_take [OF sorted, of p]
    by (simp add: sorted_wrt_map take_map buffer_start_def)
  have cross: "system_time_start x < system_time_start y + 31536000000"
    if "x \<in> set pheno_in" and "y \<in> set pheno_in" for x y
    using bounds(2) [OF that(1)] bounds(1) [OF that(2)] span by linarith
  have "sorted_wrt (<) (map system_time_start ?T)"
    using sD sF sorted
    by (auto simp: sorted_wrt_append buffer_end_def buffer_start_def
        dest!: inD inF dest: cross)
  moreover have "set (map buffer_end (rev ?D) @ (pheno_in @ map buffer_start ?F)) = set ?T"
    by auto
  moreover have "length (map buffer_end (rev ?D) @ (pheno_in @ map buffer_start ?F)) = length ?T"
    by simp
  ultimately have "sort_key system_time_start
      (map buffer_end (rev ?D) @ (pheno_in @ map buffer_start ?F)) = ?T"
    by (rule sort_key_unique)
  then show ?thesis
    by (simp add: pheno_buffered_of_def Let_def first_few last_few sort_scenes_def)
qed

lemma pheno_buffered_sorted:
  "sort_scenes False (pheno_buffered_of pheno_in p) = rev (pheno_buffered_of pheno_in p)"
proof -
  have "map system_time_start (pheno_buffered_of pheno_in p)
        = map system_time_start (sort_key system_time_start
            (map buffer_end (limit_scenes p False pheno_in)
               @ (pheno_in @ map buffer_start (limit_scenes p True pheno_in))))"
    by (simp add: pheno_buffered_of_def Let_def sort_scenes_def
        subset_bands_and_update_mask_def comp_def)
  then have "sorted (map system_time_start (pheno_buffered_of pheno_in p))"
    by simp
  then show ?thesis
    by (simp add: sort_scenes_def sort_key_id_if_sorted)
qed

lemma pheno_buffered_length:
  "p \<le> length pheno_in \<Longrightarrow> length (pheno_buffered_of pheno_in p) = length pheno_in + 2 * p"
  by (simp add: pheno_buffered_of_def Let_def sort_scenes_def limit_scenes_def)

subsection \<open>The recorded neighbours\<close>

lemma fully_valid_sentinels: "fully_valid first" "fully_valid last_scene"
  by (simp_all add: fully_valid_def first_def last_scene_def px_const_def)

lemma carry_at_rev:
  assumes "k < length bs"
  shows "carry_at last_scene (rev bs) (length bs - Suc k) = nearest_valid_after bs k"
proof -
  have "rev (take (length bs - Suc k) (rev bs)) = drop (Suc k) bs"
    using assms by (simp add: rev_take)
  then show ?thesis
    by (simp add: carry_at_def nearest_valid_after_def)
qed

lemma recorded_neighbours:
  assumes p: "p \<le> length pheno_in" and i: "i < length pheno_in"
  shows "\<exists>prevs nexts.
      previous_unmasked_scene_of pheno_in p = Inr prevs
    \<and> next_unmasked_scene_of pheno_in p = Inr nexts
    \<and> length prevs = length pheno_in \<and> length nexts = length pheno_in
    \<and> prevs ! i = nearest_valid_before (pheno_buffered_of pheno_in p) (p + i)
    \<and> nexts ! i = nearest_valid_after (pheno_buffered_of pheno_in p) (p + i)"
proof -
  let ?B = "pheno_buffered_of pheno_in p"
  let ?n = "length pheno_in"
  have lenB: "length ?B = ?n + 2 * p"
    using p by (rule pheno_buffered_length)
  obtain L where L: "iterate get_previous_unmasked_scene [first] ?B = Inr L"
    and lenL: "length L = Suc (length ?B)"
    and nthL: "\<forall>j \<le> length ?B. L ! j = carry_at first ?B j"
    using iterate_scan [OF fully_valid_sentinels(1)] by blast
  obtain L' where L': "iterate get_previous_unmasked_scene [last_scene] (rev ?B) = Inr L'"
    and lenL': "length L' = Suc (length ?B)"
    and nthL': "\<forall>j \<le> length ?B. L' ! j = carry_at last_scene (rev ?B) j"
    using iterate_scan [OF fully_valid_sentinels(2), of "rev ?B"] by auto
  let ?idx = "[int p + 1 .. int ?n + int p]"
  have idx: "indices_to_retain_of p L = ?idx"
    by (simp add: indices_to_retain_of_def lenL lenB add.commute)
  have idx_i: "?idx ! i = int p + 1 + int i" and len_idx: "length ?idx = ?n"
    using i by simp_all
  have get_prev: "ee_get L (ind - 1) = Inr (L ! nat (ind - 1))" if "ind \<in> set ?idx" for ind
    using that by (simp add: ee_get_def lenL lenB)
  have get_next: "ee_get L' (ind * (- 1) - 1) = Inr (L' ! nat (int (length ?B) - ind))"
    if "ind \<in> set ?idx" for ind
  proof -
    have "\<not> (0 \<le> ind * (- 1) - 1 \<and> ind * (- 1) - 1 < int (length L'))"
      and "ind * (- 1) - 1 < 0 \<and> - int (length L') \<le> ind * (- 1) - 1"
      and "int (length L') + (ind * (- 1) - 1) = int (length ?B) - ind"
      using that lenL' lenB by simp_all
    then show ?thesis
      unfolding ee_get_def by (simp only: if_True if_False simp_thms)
  qed
  let ?prevs = "map (\<lambda>ind. L ! nat (ind - 1)) ?idx"
  let ?nexts = "map (\<lambda>ind. L' ! nat (int (length ?B) - ind)) ?idx"
  have "map_result (\<lambda>ind. ee_get L (ind - 1)) ?idx = Inr ?prevs"
    by (rule map_result_total) (rule get_prev)
  then have prevs: "previous_unmasked_scene_of pheno_in p = Inr ?prevs"
    by (simp add: previous_unmasked_scene_of_def L idx)
  have "map_result (\<lambda>ind. ee_get L' (ind * (- 1) - 1)) ?idx = Inr ?nexts"
    by (rule map_result_total) (rule get_next)
  then have nexts: "next_unmasked_scene_of pheno_in p = Inr ?nexts"
    by (simp add: next_unmasked_scene_of_def L L' idx pheno_buffered_sorted)
  have il: "i < length ?idx"
    using i len_idx by simp
  have "nat (?idx ! i - 1) = p + i"
    unfolding idx_i by arith
  then have pi: "?prevs ! i = L ! (p + i)"
    by (simp only: nth_map [OF il])
  have "nat (int (length ?B) - ?idx ! i) = length ?B - Suc (p + i)"
    unfolding idx_i by arith
  then have ni: "?nexts ! i = L' ! (length ?B - Suc (p + i))"
    by (simp only: nth_map [OF il])
  have kB: "p + i < length ?B"
    using i lenB by simp
  have "L ! (p + i) = carry_at first ?B (p + i)"
    using nthL kB by simp
  then have "?prevs ! i = nearest_valid_before ?B (p + i)"
    by (simp only: pi carry_at_def nearest_valid_before_def)
  moreover have "L' ! (length ?B - Suc (p + i))
                 = carry_at last_scene (rev ?B) (length ?B - Suc (p + i))"
    using nthL' by simp
  then have "?nexts ! i = nearest_valid_after ?B (p + i)"
    by (simp only: ni carry_at_rev [OF kB])
  ultimately show ?thesis
    using prevs nexts len_idx by simp
qed

lemma recorded_neighbours_valid:
  "previous_unmasked_scene_of pheno_in p = Inr prevs \<Longrightarrow> c \<in> set prevs \<Longrightarrow> fully_valid c"
  "next_unmasked_scene_of pheno_in p = Inr nexts \<Longrightarrow> c \<in> set nexts \<Longrightarrow> fully_valid c"
proof -
  let ?B = "pheno_buffered_of pheno_in p"
  obtain L where L: "iterate get_previous_unmasked_scene [first] ?B = Inr L"
    and valL: "\<forall>c \<in> set L. fully_valid c"
    using iterate_scan [OF fully_valid_sentinels(1)] by blast
  obtain L' where L': "iterate get_previous_unmasked_scene [last_scene] (rev ?B) = Inr L'"
    and valL': "\<forall>c \<in> set L'. fully_valid c"
    using iterate_scan [OF fully_valid_sentinels(2), of "rev ?B"] by auto
  show "fully_valid c" if "previous_unmasked_scene_of pheno_in p = Inr prevs" "c \<in> set prevs"
  proof -
    from that(1) have "map_result (\<lambda>ind. ee_get L (ind - 1)) (indices_to_retain_of p L) = Inr prevs"
      by (simp add: previous_unmasked_scene_of_def L)
    from map_result_set [OF this that(2)] obtain ind where "ee_get L (ind - 1) = Inr c"
      by blast
    from ee_get_Inr(1) [OF this] show ?thesis
      using valL by simp
  qed
  show "fully_valid c" if "next_unmasked_scene_of pheno_in p = Inr nexts" "c \<in> set nexts"
  proof -
    from that(1) have "map_result (\<lambda>ind. ee_get L' (ind * (- 1) - 1))
        (indices_to_retain_of p L) = Inr nexts"
      by (simp add: next_unmasked_scene_of_def L L' pheno_buffered_sorted)
    from map_result_set [OF this that(2)] obtain ind where "ee_get L' (ind * (- 1) - 1) = Inr c"
      by blast
    from ee_get_Inr(1) [OF this] show ?thesis
      using valL' by simp
  qed
qed


lemma cloud_temporal_filter_nth:
  assumes out: "cloud_temporal_filter pheno_in threshold_low threshold_high p = Inr out"
    and i: "i < length pheno_in"
  shows "\<exists>previous_scene next_scene.
      length out = length pheno_in
    \<and> out ! i = check_scene threshold_low threshold_high previous_scene next_scene
                  (sort_scenes True pheno_in ! i)
    \<and> fully_valid previous_scene \<and> fully_valid next_scene
    \<and> (\<exists>prevs nexts. previous_unmasked_scene_of pheno_in p = Inr prevs
          \<and> next_unmasked_scene_of pheno_in p = Inr nexts
          \<and> i < length prevs \<and> i < length nexts
          \<and> previous_scene = prevs ! i \<and> next_scene = nexts ! i)"
proof -
  from out obtain prevs nexts plist
    where prevs: "previous_unmasked_scene_of pheno_in p = Inr prevs"
      and nexts: "next_unmasked_scene_of pheno_in p = Inr nexts"
      and plist: "pheno_in_list_of pheno_in = Inr plist"
      and m: "map_result (check_value threshold_low threshold_high prevs nexts plist)
                [0 .. int (length pheno_in) - 1] = Inr out"
    by (auto simp: cloud_temporal_filter_def split: sum.splits)
  from map_result_Inr [OF m] i
  have len: "length out = length pheno_in"
    and cv: "check_value threshold_low threshold_high prevs nexts plist (int i) = Inr (out ! i)"
    by auto
  from cv obtain previous_scene next_scene current_scene
    where g1: "ee_get prevs (int i) = Inr previous_scene"
      and g2: "ee_get nexts (int i) = Inr next_scene"
      and g3: "ee_get plist (int i + 1) = Inr current_scene"
      and r: "out ! i = check_scene threshold_low threshold_high previous_scene next_scene
                 current_scene"
    by (auto simp: check_value_def split: sum.splits)
  have p1: "i < length prevs \<and> previous_scene = prevs ! i"
    using ee_get_Inr(2) [OF g1] by simp
  have p2: "i < length nexts \<and> next_scene = nexts ! i"
    using ee_get_Inr(2) [OF g2] by simp
  obtain img where "plist = img # sort_scenes True pheno_in"
    using plist by (auto simp: pheno_in_list_of_def split: list.splits)
  then have p3: "current_scene = sort_scenes True pheno_in ! i"
    using ee_get_Inr(2) [OF g3] by (simp add: nat_add_distrib)
  have "fully_valid previous_scene" "fully_valid next_scene"
    using recorded_neighbours_valid(1) [OF prevs] recorded_neighbours_valid(2) [OF nexts] p1 p2
    by simp_all
  then show ?thesis
    using len r p1 p2 p3 prevs nexts by auto
qed


lemma check_scene_bands:
  "previous_value (check_scene lo hi pr nx cur) = band_value pr"
  "previous_DOY (check_scene lo hi pr nx cur) = DOY pr"
  "next_value (check_scene lo hi pr nx cur) = band_value nx"
  "next_DOY (check_scene lo hi pr nx cur) = DOY nx"
  "val (band_value (check_scene lo hi pr nx cur)) = val (band_value cur)"
  "val (reg_expected (check_scene lo hi pr nx cur)) =
     val (band_value pr) + (val (DOY cur) - val (DOY pr)) *
       ((val (band_value nx) - val (band_value pr)) / (val (DOY nx) - val (DOY pr)))"
  "val (reg_diff (check_scene lo hi pr nx cur)) =
     val (band_value cur) - val (reg_expected (check_scene lo hi pr nx cur))"
  by (simp_all add: check_scene_def Let_def px_defs)


lemma check_scene_valid:
  assumes "fully_valid pr" and "fully_valid nx" and "valid (band_value cur)" and "valid (DOY cur)"
  shows "valid (band_value (check_scene lo hi pr nx cur)) \<longleftrightarrow>
           lo < val (reg_diff (check_scene lo hi pr nx cur))
           \<and> val (reg_diff (check_scene lo hi pr nx cur)) < hi"
  using assms by (simp add: check_scene_def Let_def px_defs fully_valid_def)

subsection \<open>Runs on small series\<close>

lemma three_scenes_sorted:
  "sort_scenes True [example_scene 0 a, example_scene 5 b, example_scene 10 c]
   = [example_scene 0 a, example_scene 5 b, example_scene 10 c]"
  by (simp add: sort_scenes_def example_scene_def ms_per_day_def)

lemma three_scenes_run:
  "cloud_temporal_filter (three_scenes a b c) lo hi 0 =
     Inr [check_scene lo hi first (observation_of (example_scene 5 b)) (example_scene 0 a),
          check_scene lo hi (observation_of (example_scene 0 a))
            (observation_of (example_scene 10 c)) (example_scene 5 b),
          check_scene lo hi (observation_of (example_scene 5 b)) last_scene
            (example_scene 10 c)]"
proof -
  let ?xs = "[example_scene 0 a, example_scene 5 b, example_scene 10 c]"
  have m: "subset_bands_and_update_mask (example_scene d v) = example_scene d v" for d v
    by (simp add: example_scene_def subset_bands_and_update_mask_def px_defs)
  have b: "pheno_buffered_of ?xs 0 = ?xs"
    by (simp add: pheno_buffered_of_def limit_scenes_def three_scenes_sorted m)
  have r: "sort_scenes False (pheno_buffered_of ?xs 0) = rev ?xs"
    using pheno_buffered_sorted [of ?xs 0] by (simp only: b)
  have s: "get_previous_unmasked_scene (example_scene d v) (l @ [x])
           = Inr (l @ [x, observation_of (example_scene d v)])" for d v l x
    by (simp add: get_previous_unmasked_scene_def ee_get_def example_scene_def
        observation_of_def px_defs)
  have p: "iterate get_previous_unmasked_scene [first] ?xs
           = Inr [first, observation_of (example_scene 0 a), observation_of (example_scene 5 b),
                  observation_of (example_scene 10 c)]"
    using s [of 0 a "[]"] s [of 5 b "[first]"]
      s [of 10 c "[first, observation_of (example_scene 0 a)]"]
    by simp
  have n: "iterate get_previous_unmasked_scene [last_scene] (rev ?xs)
           = Inr [last_scene, observation_of (example_scene 10 c),
                  observation_of (example_scene 5 b), observation_of (example_scene 0 a)]"
    using s [of 10 c "[]"] s [of 5 b "[last_scene]"]
      s [of 0 a "[last_scene, observation_of (example_scene 10 c)]"]
    by simp
  have u: "[1 .. (3 :: int)] = [1, 2, 3]" "[0 .. (2 :: int)] = [0, 1, 2]"
    by (simp_all add: upto.simps)
  have pr: "previous_unmasked_scene_of ?xs 0
            = Inr [first, observation_of (example_scene 0 a), observation_of (example_scene 5 b)]"
    unfolding previous_unmasked_scene_of_def b p
    by (simp add: indices_to_retain_of_def u ee_get_def)
  have nx: "next_unmasked_scene_of ?xs 0
            = Inr [observation_of (example_scene 5 b), observation_of (example_scene 10 c),
                   last_scene]"
    unfolding next_unmasked_scene_of_def r unfolding b p n
    by (simp add: indices_to_retain_of_def u ee_get_def)
  show ?thesis
    unfolding three_scenes_def cloud_temporal_filter_def pr nx pheno_in_list_of_def
      three_scenes_sorted
    by (simp add: u check_value_def ee_get_def)
qed

lemma check_scene_example:
  "val (reg_diff (check_scene lo hi pr nx cur)) =
     val (band_value cur) - (val (band_value pr) + (val (DOY cur) - val (DOY pr)) *
       ((val (band_value nx) - val (band_value pr)) / (val (DOY nx) - val (DOY pr))))"
  by (simp add: check_scene_bands)

lemma example_scene_simps:
  "val (band_value (example_scene d v)) = v" "valid (band_value (example_scene d v))"
  "val (DOY (example_scene d v)) = real_of_int d" "valid (DOY (example_scene d v))"
  "band_value (observation_of (example_scene d v)) = px_const v"
  "DOY (observation_of (example_scene d v)) = px_const (real_of_int d)"
  "fully_valid (observation_of (example_scene d v))"
  by (simp_all add: example_scene_def observation_of_def fully_valid_def px_defs)

lemma sentinel_simps:
  "band_value first = px_const 0" "DOY first = px_const 0"
  "band_value last_scene = px_const 0" "DOY last_scene = px_const 365"
  by (simp_all add: first_def last_scene_def)

text \<open>
  Claim C4, as stated, fails at the ends of the band: in the series of values 10, 16, 12 at
  the days 0, 5, 10, with the thresholds \<open>-5\<close> and \<open>5\<close>, the residual of the middle
  scene is exactly 5, inside \<open>[-5, 5]\<close>, and the scene is masked.
\<close>

theorem closed_band_counterexample:
  "map_sum id (\<lambda>out. (val (reg_diff (out ! 1)), valid (band_value (out ! 1))))
     (cloud_temporal_filter (three_scenes 10 16 12) (- 5) 5 0) = Inr (5, False)
   \<and> (- 5 :: real) \<le> 5 \<and> (5 :: real) \<le> 5"
  by (simp add: three_scenes_run check_scene_example
      check_scene_valid [OF example_scene_simps(7) example_scene_simps(7)
        example_scene_simps(2) example_scene_simps(4)]
      example_scene_simps px_const_def)

text \<open>
  Claim C4, amended.  For an unmasked observation (at index \<open>i\<close> of the collection sorted
  by time) whose recorded previous and next neighbours have distinct days of year,
  \<open>cloud_temporal_filter\<close> computes the expected value on the straight line of value
  against day of year through the two neighbours, at the day of year of the observation, and
  the residual as the value minus the expected value; it keeps the observation exactly when
  \<open>threshold_low < residual < threshold_high\<close> and masks it otherwise, so also when the
  residual equals one of the thresholds.
\<close>

theorem masked_outside_open_band:
  assumes "cloud_temporal_filter pheno_in threshold_low threshold_high num_padding_scenes
             = Inr out"
    and "i < length pheno_in"
    and "current = sort_scenes True pheno_in ! i"
    and "r = out ! i"
    and "valid (band_value current)" and "valid (DOY current)"
    and "val (previous_DOY r) \<noteq> val (next_DOY r)"
  shows "val (reg_expected r) =
           val (previous_value r) + (val (DOY current) - val (previous_DOY r)) *
             ((val (next_value r) - val (previous_value r))
                / (val (next_DOY r) - val (previous_DOY r)))
       \<and> val (reg_diff r) = val (band_value current) - val (reg_expected r)
       \<and> (valid (band_value r) \<longleftrightarrow>
            threshold_low < val (reg_diff r) \<and> val (reg_diff r) < threshold_high)
       \<and> (\<exists>prevs nexts.
            previous_unmasked_scene_of pheno_in num_padding_scenes = Inr prevs
          \<and> next_unmasked_scene_of pheno_in num_padding_scenes = Inr nexts
          \<and> previous_value r = band_value (prevs ! i) \<and> previous_DOY r = DOY (prevs ! i)
          \<and> next_value r = band_value (nexts ! i) \<and> next_DOY r = DOY (nexts ! i))"
proof -
  from cloud_temporal_filter_nth [OF assms(1,2)]
  obtain previous_scene next_scene prevs nexts
    where r: "r = check_scene threshold_low threshold_high previous_scene next_scene current"
      and v: "fully_valid previous_scene" "fully_valid next_scene"
      and n: "previous_unmasked_scene_of pheno_in num_padding_scenes = Inr prevs"
        "next_unmasked_scene_of pheno_in num_padding_scenes = Inr nexts"
        "previous_scene = prevs ! i" "next_scene = nexts ! i"
    using assms(3,4) by auto
  show ?thesis
    unfolding r
    using n check_scene_valid [OF v assms(5,6), of threshold_low threshold_high]
    by (simp add: check_scene_bands)
qed

text \<open>
  With the thresholds \<open>-20\<close> and \<open>20\<close>: in the series of values 10, 100, 12 at the days
  0, 5, 10 the middle scene has the residual 89 and is masked; in the series of values
  10, 11, 12 the three scenes stay unmasked.
\<close>

theorem masked_outside_open_band_witness:
  "(1 :: nat) < length (three_scenes 10 100 12)
   \<and> valid (band_value (sort_scenes True (three_scenes 10 100 12) ! 1))
   \<and> valid (DOY (sort_scenes True (three_scenes 10 100 12) ! 1))
   \<and> map_sum id (\<lambda>out. (val (previous_DOY (out ! 1)), val (next_DOY (out ! 1)),
          val (reg_expected (out ! 1)), val (reg_diff (out ! 1)), valid (band_value (out ! 1))))
        (cloud_temporal_filter (three_scenes 10 100 12) (- 20) 20 0)
      = Inr (0, 10, 11, 89, False)
   \<and> map_sum id (map (\<lambda>r. valid (band_value r)))
        (cloud_temporal_filter (three_scenes 10 11 12) (- 20) 20 0)
      = Inr [True, True, True]"
proof -
  have s: "sort_scenes True (three_scenes 10 100 12) ! 1 = example_scene 5 100"
    unfolding three_scenes_def three_scenes_sorted by simp
  have l: "(1 :: nat) < length (three_scenes 10 100 12)"
    by (simp add: three_scenes_def)
  have d: "val (previous_DOY
      ([check_scene (- 20) 20 first (observation_of (example_scene 5 100)) (example_scene 0 10),
        check_scene (- 20) 20 (observation_of (example_scene 0 10))
          (observation_of (example_scene 10 12)) (example_scene 5 100),
        check_scene (- 20) 20 (observation_of (example_scene 5 100)) last_scene
          (example_scene 10 12)] ! 1))
    \<noteq> val (next_DOY
      ([check_scene (- 20) 20 first (observation_of (example_scene 5 100)) (example_scene 0 10),
        check_scene (- 20) 20 (observation_of (example_scene 0 10))
          (observation_of (example_scene 10 12)) (example_scene 5 100),
        check_scene (- 20) 20 (observation_of (example_scene 5 100)) last_scene
          (example_scene 10 12)] ! 1))"
    by (simp add: check_scene_bands example_scene_simps px_const_def)
  have v: "valid (band_value (example_scene 5 100))" "valid (DOY (example_scene 5 100))"
    by (simp_all add: example_scene_simps)
  note m = masked_outside_open_band [OF three_scenes_run l s [symmetric] refl v d]
  have linear: "map_sum id (map (\<lambda>r. valid (band_value r)))
        (cloud_temporal_filter (three_scenes 10 11 12) (- 20) 20 0) = Inr [True, True, True]"
    by (simp add: three_scenes_run check_scene_example sentinel_simps
        check_scene_valid [OF fully_valid_sentinels(1) example_scene_simps(7)
          example_scene_simps(2) example_scene_simps(4)]
        check_scene_valid [OF example_scene_simps(7) example_scene_simps(7)
          example_scene_simps(2) example_scene_simps(4)]
        check_scene_valid [OF example_scene_simps(7) fully_valid_sentinels(2)
          example_scene_simps(2) example_scene_simps(4)]
        example_scene_simps px_const_def)
  show ?thesis
    using m l linear
    by (simp add: s s [unfolded One_nat_def] three_scenes_run check_scene_bands
        example_scene_simps px_const_def)
qed


lemma single_scene_run:
  "cloud_temporal_filter [example_scene d v] lo hi 0 =
     Inr [check_scene lo hi first last_scene (example_scene d v)]"
proof -
  let ?xs = "[example_scene d v]"
  have m: "subset_bands_and_update_mask (example_scene d v) = example_scene d v"
    by (simp add: example_scene_def subset_bands_and_update_mask_def px_defs)
  have b: "pheno_buffered_of ?xs 0 = ?xs"
    by (simp add: pheno_buffered_of_def limit_scenes_def sort_scenes_def m)
  have s: "get_previous_unmasked_scene (example_scene d v) [x]
           = Inr [x, observation_of (example_scene d v)]" for x
    by (simp add: get_previous_unmasked_scene_def ee_get_def example_scene_def
        observation_of_def px_defs)
  have pr: "previous_unmasked_scene_of ?xs 0 = Inr [first]"
    unfolding previous_unmasked_scene_of_def b
    by (simp add: s indices_to_retain_of_def ee_get_def)
  have nx: "next_unmasked_scene_of ?xs 0 = Inr [last_scene]"
    unfolding next_unmasked_scene_of_def b
    by (simp add: s sort_scenes_def indices_to_retain_of_def ee_get_def)
  show ?thesis
    unfolding cloud_temporal_filter_def pr nx pheno_in_list_of_def
    by (simp add: sort_scenes_def check_value_def ee_get_def)
qed

text \<open>
  Claim C10.  For an unmasked observation whose recorded previous neighbour is the image
  \<open>first\<close> (value 0 at day of year 0) and whose recorded next neighbour is the image
  \<open>last\<close> (value 0 at day of year 365), the slope and the expected value are 0, the
  residual is the raw value of the observation, and \<open>cloud_temporal_filter\<close> keeps the
  observation exactly when \<open>threshold_low < value < threshold_high\<close>; it masks it
  otherwise, so it does not keep it unconditionally.
\<close>

theorem no_neighbour_compares_raw_value:
  assumes "cloud_temporal_filter pheno_in threshold_low threshold_high num_padding_scenes
             = Inr out"
    and "i < length pheno_in"
    and "current = sort_scenes True pheno_in ! i"
    and "r = out ! i"
    and "valid (band_value current)" and "valid (DOY current)"
    and "previous_value r = band_value first" and "previous_DOY r = DOY first"
    and "next_value r = band_value last_scene" and "next_DOY r = DOY last_scene"
  shows "(val (next_value r) - val (previous_value r))
           / (val (next_DOY r) - val (previous_DOY r)) = 0
       \<and> val (reg_expected r) = 0
       \<and> val (reg_diff r) = val (band_value current)
       \<and> (valid (band_value r) \<longleftrightarrow>
            threshold_low < val (band_value current)
            \<and> val (band_value current) < threshold_high)"
proof -
  from cloud_temporal_filter_nth [OF assms(1,2)]
  obtain previous_scene next_scene
    where r: "r = check_scene threshold_low threshold_high previous_scene next_scene current"
      and v: "fully_valid previous_scene" "fully_valid next_scene"
    using assms(3,4) by auto
  have n: "band_value previous_scene = px_const 0" "DOY previous_scene = px_const 0"
    "band_value next_scene = px_const 0" "DOY next_scene = px_const 365"
    using assms(7-10) unfolding r by (simp_all add: check_scene_bands sentinel_simps)
  have d: "val (reg_diff r) = val (band_value current)" "val (reg_expected r) = 0"
    unfolding r by (simp_all add: check_scene_bands n px_const_def)
  show ?thesis
    using check_scene_valid [OF v assms(5,6), of threshold_low threshold_high] d
    unfolding r by (simp add: check_scene_bands n px_const_def)
qed

text \<open>
  A series of one scene of value 0.8, with the thresholds \<open>-0.5\<close> and \<open>0.5\<close> and no
  padding: both neighbours are the filler images and the scene is masked.
\<close>

theorem no_neighbour_compares_raw_value_witness:
  "(0 :: nat) < length [example_scene 100 0.8]
   \<and> valid (band_value (sort_scenes True [example_scene 100 0.8] ! 0))
   \<and> valid (DOY (sort_scenes True [example_scene 100 0.8] ! 0))
   \<and> map_sum id (\<lambda>out. (previous_value (out ! 0), previous_DOY (out ! 0),
          next_value (out ! 0), next_DOY (out ! 0)))
        (cloud_temporal_filter [example_scene 100 0.8] (- 0.5) 0.5 0)
      = Inr (band_value first, DOY first, band_value last_scene, DOY last_scene)
   \<and> map_sum id (\<lambda>out. (val (reg_expected (out ! 0)), val (reg_diff (out ! 0)),
          valid (band_value (out ! 0))))
        (cloud_temporal_filter [example_scene 100 0.8] (- 0.5) 0.5 0)
      = Inr (0, 0.8, False)"
proof -
  have s: "sort_scenes True [example_scene 100 0.8] ! 0 = example_scene 100 0.8"
    by (simp add: sort_scenes_def)
  have v: "valid (band_value (example_scene 100 0.8))" "valid (DOY (example_scene 100 0.8))"
    by (simp_all add: example_scene_simps)
  have n: "previous_value ([check_scene (- 0.5) 0.5 first last_scene (example_scene 100 0.8)] ! 0)
             = band_value first"
    "previous_DOY ([check_scene (- 0.5) 0.5 first last_scene (example_scene 100 0.8)] ! 0)
             = DOY first"
    "next_value ([check_scene (- 0.5) 0.5 first last_scene (example_scene 100 0.8)] ! 0)
             = band_value last_scene"
    "next_DOY ([check_scene (- 0.5) 0.5 first last_scene (example_scene 100 0.8)] ! 0)
             = DOY last_scene"
    by (simp_all add: check_scene_bands)
  have l: "(0 :: nat) < length [example_scene 100 0.8]"
    by simp
  note m = no_neighbour_compares_raw_value [OF single_scene_run l s [symmetric] refl v n]
  have c2: "valid (band_value (sort_scenes True [example_scene 100 0.8] ! 0))"
    "valid (DOY (sort_scenes True [example_scene 100 0.8] ! 0))"
    by (simp_all only: s v)
  have c3: "map_sum id (\<lambda>out. (previous_value (out ! 0), previous_DOY (out ! 0),
          next_value (out ! 0), next_DOY (out ! 0)))
        (cloud_temporal_filter [example_scene 100 0.8] (- 0.5) 0.5 0)
      = Inr (band_value first, DOY first, band_value last_scene, DOY last_scene)"
    by (simp add: single_scene_run check_scene_bands)
  have c4: "map_sum id (\<lambda>out. (val (reg_expected (out ! 0)), val (reg_diff (out ! 0)),
          valid (band_value (out ! 0))))
        (cloud_temporal_filter [example_scene 100 0.8] (- 0.5) 0.5 0)
      = Inr (0, 0.8, False)"
    using m by (simp add: single_scene_run example_scene_simps)
  show ?thesis
    by (intro conjI l c2 c3 c4)
qed

text \<open>
  Claim C5, as stated, fails when the padding is larger than the series or when the series
  is longer than a year.  With a padding of 4 on three scenes, the scene of index 0 is at
  position 3 of the buffered series; the nearest valid observation strictly before it is
  the last scene shifted back by a year, but the neighbour recorded for index 0 is the
  scene of index 0 itself.  With a padding of 1 on scenes at the days 0, 400 and 800, the
  scene of index 0 is at position 0 of the buffered series, with no observation before it,
  and the neighbour recorded for it is again the scene itself.
\<close>

theorem recorded_previous_neighbour_counterexample:
  "previous_unmasked_scene_of (three_scenes 10 16 12) 4
     = Inr [observation_of (example_scene 0 10)]
   \<and> pheno_buffered_of (three_scenes 10 16 12) 4 ! 3 = example_scene 0 10
   \<and> nearest_valid_before (pheno_buffered_of (three_scenes 10 16 12) 4) 3
       = observation_of (buffer_end (example_scene 10 12))
   \<and> observation_of (example_scene 0 10) \<noteq> observation_of (buffer_end (example_scene 10 12))
   \<and> map_sum id hd (previous_unmasked_scene_of long_series 1)
       = Inr (observation_of (example_scene 0 10))
   \<and> pheno_buffered_of long_series 1 ! 0 = example_scene 0 10
   \<and> nearest_valid_before (pheno_buffered_of long_series 1) 0 = first
   \<and> observation_of (example_scene 0 10) \<noteq> first"
  by (simp add: three_scenes_def long_series_def previous_unmasked_scene_of_def
      pheno_buffered_of_def Let_def limit_scenes_def sort_scenes_def example_scene_def
      buffer_start_def buffer_end_def ms_per_day_def subset_bands_and_update_mask_def
      get_previous_unmasked_scene_def ee_get_def indices_to_retain_of_def first_def
      observation_of_def nearest_valid_before_def px_defs upto.simps)

text \<open>
  Claim C5, amended.  For a series with strictly increasing times that spans less than 365
  days, and a number of padding scenes not larger than the number of scenes, the scene of
  index \<open>i\<close> is at position \<open>num_padding_scenes + i\<close> of the buffered series; the
  previous neighbour that \<open>cloud_temporal_filter\<close> records for \<open>i\<close> is the nearest
  valid observation strictly before that position, or the image \<open>first\<close> (value 0 at day
  of year 0) if there is none, and the next neighbour is the nearest valid observation
  strictly after it, or the image \<open>last\<close> (value 0 at day of year 365) if there is none.
\<close>

theorem recorded_neighbours_nearest_valid:
  assumes "sorted_wrt (<) (map system_time_start pheno_in)"
    and "system_time_start (last pheno_in) - system_time_start (hd pheno_in) < 31536000000"
    and "num_padding_scenes \<le> length pheno_in"
    and "i < length pheno_in"
  shows "\<exists>prevs nexts.
      previous_unmasked_scene_of pheno_in num_padding_scenes = Inr prevs
    \<and> next_unmasked_scene_of pheno_in num_padding_scenes = Inr nexts
    \<and> length prevs = length pheno_in \<and> length nexts = length pheno_in
    \<and> pheno_buffered_of pheno_in num_padding_scenes ! (num_padding_scenes + i)
        = subset_bands_and_update_mask (pheno_in ! i)
    \<and> prevs ! i = nearest_valid_before (pheno_buffered_of pheno_in num_padding_scenes)
                     (num_padding_scenes + i)
    \<and> nexts ! i = nearest_valid_after (pheno_buffered_of pheno_in num_padding_scenes)
                     (num_padding_scenes + i)"
proof -
  have "pheno_buffered_of pheno_in num_padding_scenes ! (num_padding_scenes + i)
        = subset_bands_and_update_mask (pheno_in ! i)"
    using assms(3,4)
    by (simp add: pheno_buffered_explicit [OF assms(1-3)] nth_append)
  then show ?thesis
    using recorded_neighbours [OF assms(3,4)] by blast
qed

text \<open>
  A series with a masked scene in the middle and one padding scene: for the last scene the
  previous neighbour skips the masked scene, and the next neighbour is the first scene
  folded onto the end.
\<close>

theorem recorded_neighbours_nearest_valid_witness:
  "sorted_wrt (<) (map system_time_start gap_series)
   \<and> system_time_start (last gap_series) - system_time_start (hd gap_series) < 31536000000
   \<and> (1 :: nat) \<le> length gap_series \<and> (2 :: nat) < length gap_series
   \<and> (\<exists>prevs nexts.
        previous_unmasked_scene_of gap_series 1 = Inr prevs
      \<and> next_unmasked_scene_of gap_series 1 = Inr nexts
      \<and> prevs ! 2 = observation_of (example_scene 0 10)
      \<and> nexts ! 2 = observation_of (buffer_start (example_scene 0 10)))"
proof -
  have h1: "sorted_wrt (<) (map system_time_start gap_series)"
    and h2: "system_time_start (last gap_series) - system_time_start (hd gap_series)
               < 31536000000"
    and h3: "(1 :: nat) \<le> length gap_series" and h4: "(2 :: nat) < length gap_series"
    by (simp_all add: gap_series_def example_scene_def ms_per_day_def)
  have b: "nearest_valid_before (pheno_buffered_of gap_series 1) (1 + 2)
             = observation_of (example_scene 0 10)"
    "nearest_valid_after (pheno_buffered_of gap_series 1) (1 + 2)
             = observation_of (buffer_start (example_scene 0 10))"
    unfolding pheno_buffered_explicit [OF h1 h2 h3]
    by (simp_all add: gap_series_def nearest_valid_before_def nearest_valid_after_def
        example_scene_def subset_bands_and_update_mask_def buffer_start_def buffer_end_def
        observation_of_def px_defs)
  from recorded_neighbours_nearest_valid [OF h1 h2 h3 h4]
  obtain prevs nexts where pn: "previous_unmasked_scene_of gap_series 1 = Inr prevs"
    "next_unmasked_scene_of gap_series 1 = Inr nexts"
    and nb: "prevs ! 2 = nearest_valid_before (pheno_buffered_of gap_series 1) (1 + 2)"
      "nexts ! 2 = nearest_valid_after (pheno_buffered_of gap_series 1) (1 + 2)"
    by blast
  have "prevs ! 2 = observation_of (example_scene 0 10)"
    "nexts ! 2 = observation_of (buffer_start (example_scene 0 10))"
    using nb by (simp_all only: b)
  then show ?thesis
    using h1 h2 h3 h4 pn by blast
qed

end
